theory Spec2Isabelle
  imports Complex_Main "HOL-Library.Sublist"
begin

section \<open>Python text\<close>

text \<open>
  Text is modelled over the first 256 code points: a \<open>str\<close> is a \<open>string\<close>, one \<open>char\<close>
  per character, and \<open>CHR n\<close> is the code point \<open>n\<close>. Whitespace and letter case are
  Unicode's on these code points. Python's text has more characters; they are outside the
  model.
\<close>

definition py_isspace :: "char \<Rightarrow> bool" where
  \<comment> \<open>\<open>str.isspace\<close>: tab, line feed, vertical tab, form feed, carriage return, the four
      separators 0x1C..0x1F, the blank, the next-line control and the no-break space.\<close>
  "py_isspace c \<longleftrightarrow>
     c \<in> set [CHR 0x09, CHR 0x0A, CHR 0x0B, CHR 0x0C, CHR 0x0D,
                CHR 0x1C, CHR 0x1D, CHR 0x1E, CHR 0x1F, CHR 0x20, CHR 0x85, CHR 0xA0]"

definition strip_where :: "(char \<Rightarrow> bool) \<Rightarrow> string \<Rightarrow> string" where
  \<comment> \<open>remove the longest prefix and the longest suffix made of characters in \<open>p\<close>\<close>
  "strip_where p s = rev (dropWhile p (rev (dropWhile p s)))"

definition py_strip :: "string \<Rightarrow> string" where
  \<comment> \<open>\<open>s.strip()\<close>\<close>
  "py_strip s = strip_where py_isspace s"

definition py_strip_chars :: "string \<Rightarrow> string \<Rightarrow> string" where
  \<comment> \<open>\<open>s.strip(chars)\<close>: \<open>chars\<close> is a set of characters, not a prefix or suffix\<close>
  "py_strip_chars chars s = strip_where (\<lambda>c. c \<in> set chars) s"

definition ascii_upper :: string where
  "ascii_upper = ''ABCDEFGHIJKLMNOPQRSTUVWXYZ''"

definition ascii_lower :: string where
  "ascii_lower = ''abcdefghijklmnopqrstuvwxyz''"

definition latin1_upper :: string where
  \<comment> \<open>the capital letters from 0xC0 to 0xDE; 0xD7 is the multiplication sign\<close>
  "latin1_upper =
     [CHR 0xC0, CHR 0xC1, CHR 0xC2, CHR 0xC3, CHR 0xC4, CHR 0xC5, CHR 0xC6,
      CHR 0xC7, CHR 0xC8, CHR 0xC9, CHR 0xCA, CHR 0xCB, CHR 0xCC, CHR 0xCD,
      CHR 0xCE, CHR 0xCF, CHR 0xD0, CHR 0xD1, CHR 0xD2, CHR 0xD3, CHR 0xD4,
      CHR 0xD5, CHR 0xD6, CHR 0xD8, CHR 0xD9, CHR 0xDA, CHR 0xDB, CHR 0xDC,
      CHR 0xDD, CHR 0xDE]"

definition latin1_lower :: string where
  \<comment> \<open>their small letters, from 0xE0 to 0xFE; 0xF7 is the division sign\<close>
  "latin1_lower =
     [CHR 0xE0, CHR 0xE1, CHR 0xE2, CHR 0xE3, CHR 0xE4, CHR 0xE5, CHR 0xE6,
      CHR 0xE7, CHR 0xE8, CHR 0xE9, CHR 0xEA, CHR 0xEB, CHR 0xEC, CHR 0xED,
      CHR 0xEE, CHR 0xEF, CHR 0xF0, CHR 0xF1, CHR 0xF2, CHR 0xF3, CHR 0xF4,
      CHR 0xF5, CHR 0xF6, CHR 0xF8, CHR 0xF9, CHR 0xFA, CHR 0xFB, CHR 0xFC,
      CHR 0xFD, CHR 0xFE]"

definition py_upper :: "string \<Rightarrow> string" where
  \<comment> \<open>\<open>s.upper()\<close>. The sharp s (0xDF) becomes \<open>SS\<close>. The capitals of the micro sign (0xB5)
      and of the y with diaeresis (0xFF) lie beyond 0xFF: the two are left as they are.\<close>
  "py_upper s =
     concat (map (\<lambda>c. if c = CHR 0xDF then ''SS''
                       else [case map_of (zip (ascii_lower @ latin1_lower)
                                              (ascii_upper @ latin1_upper)) c of
                               Some d \<Rightarrow> d | None \<Rightarrow> c]) s)"

definition py_lower :: "string \<Rightarrow> string" where
  \<comment> \<open>\<open>s.lower()\<close>\<close>
  "py_lower s =
     map (\<lambda>c. case map_of (zip (ascii_upper @ latin1_upper)
                                (ascii_lower @ latin1_lower)) c of
                 Some d \<Rightarrow> d | None \<Rightarrow> c) s"

definition py_in :: "string \<Rightarrow> string \<Rightarrow> bool" where
  \<comment> \<open>\<open>a in b\<close> on two strings: \<open>a\<close> occurs in \<open>b\<close> as a contiguous piece\<close>
  "py_in a b = sublist a b"

fun py_join :: "string \<Rightarrow> string list \<Rightarrow> string" where
  "py_join sep [] = []"
| "py_join sep [x] = x"
| "py_join sep (x # y # ys) = x @ sep @ py_join sep (y # ys)"

fun str_nat :: "nat \<Rightarrow> string" where
  \<comment> \<open>\<open>str(n)\<close> of a non-negative integer\<close>
  "str_nat n =
     (if n < 10 then [''0123456789'' ! n]
      else str_nat (n div 10) @ [''0123456789'' ! (n mod 10)])"

type_synonym str_dict = "(string \<times> string) list"

definition dict_get :: "('k \<times> 'v) list \<Rightarrow> 'k \<Rightarrow> 'v \<Rightarrow> 'v" where
  \<comment> \<open>\<open>d.get(k, default)\<close>\<close>
  "dict_get d k dflt = (case map_of d k of None \<Rightarrow> dflt | Some v \<Rightarrow> v)"


section \<open>Python values\<close>

text \<open>
  What \<open>json.loads\<close> returns and what the services pass around under the type
  \<open>Dict[str, Any]\<close>: \<open>None\<close>, booleans, integers, floats, strings, lists, and dictionaries
  with string keys in insertion order. A float is its numeric value, or one of the three
  special values the decoder also produces (\<open>NaN\<close>, \<open>Infinity\<close>, \<open>-Infinity\<close>); the
  rounding of a decimal literal to the nearest double is not modelled.
\<close>

datatype pyfloat = Finite real | PosInf | NegInf | NaN

datatype json =
    JNull
  | JBool bool
  | JInt int
  | JFloat pyfloat
  | JStr string
  | JList "json list"
  | JDict "(string \<times> json) list"

fun dict_set :: "('k \<times> 'v) list \<Rightarrow> 'k \<Rightarrow> 'v \<Rightarrow> ('k \<times> 'v) list" where
  \<comment> \<open>\<open>d[k] = v\<close>: an existing key keeps its place, a new one goes last\<close>
  "dict_set [] k v = [(k, v)]"
| "dict_set ((k', v') # d) k v =
     (if k' = k then (k, v) # d else (k', v') # dict_set d k v)"

text \<open>
  Exceptions. The three exception classes of the services carry a message; where the
  source formats it as \<open>f"<text>: {str(e)}"\<close> the model keeps the text and the exception
  \<open>e\<close> itself.
\<close>

datatype exn =
    TypeError
  | AttributeError
  | KeyError
  | IndexError
  | ValueError string
  | ValidationError
  | JSONDecodeError
  | Exception string
  | LLMClientError string "exn option"
  | MemoryExtractionError string exn
  | PersonalityEngineError string exn

fun py_iter :: "json \<Rightarrow> exn + json list" where
  \<comment> \<open>what a \<open>for\<close> loop over the value visits: the items of a list, the keys of a
      dictionary, the characters of a string; anything else is not iterable\<close>
  "py_iter (JList xs) = Inr xs"
| "py_iter (JDict kvs) = Inr (map (\<lambda>(k, v). JStr k) kvs)"
| "py_iter (JStr s) = Inr (map (\<lambda>c. JStr [c]) s)"
| "py_iter _ = Inl TypeError"


section \<open>The JSON decoder\<close>

text \<open>
  \<open>json.loads\<close> belongs to the standard library. The functions that call it take the
  decoder as an argument; \<open>json_loads\<close> below is a decoder for the JSON grammar as Python
  reads it (with the literals \<open>NaN\<close>, \<open>Infinity\<close> and \<open>-Infinity\<close>, and the last of two equal
  keys winning), in two passes: characters to tokens, tokens to a value. A \<open>\u\<close> escape is
  decoded when it names one of the 256 characters of the text model and refused
  otherwise. A number with a fraction or an exponent is read as the real number it
  writes; Python rounds it to the nearest double.
\<close>

datatype token =
  TLBrace | TRBrace | TLBrack | TRBrack | TColon | TComma | TString string | TWord string

datatype lex_mode =
  Plain | Word string | InString string | Escape string | Unicode string string

definition json_ws :: "char \<Rightarrow> bool" where
  "json_ws c \<longleftrightarrow> c \<in> set [CHR 0x20, CHR 0x09, CHR 0x0A, CHR 0x0D]"

definition is_digit :: "char \<Rightarrow> bool" where
  "is_digit c \<longleftrightarrow> c \<in> set ''0123456789''"

definition word_char :: "char \<Rightarrow> bool" where
  \<comment> \<open>the characters of numbers and of the literal names\<close>
  "word_char c \<longleftrightarrow> c \<in> set (''0123456789+-.'' @ ascii_lower @ ascii_upper)"

definition punctuation :: "(char \<times> token) list" where
  "punctuation =
     [(CHR ''{'', TLBrace), (CHR ''}'', TRBrace), (CHR ''['', TLBrack),
      (CHR '']'', TRBrack), (CHR '':'', TColon), (CHR '','', TComma)]"

definition escapes :: "(char \<times> char) list" where
  "escapes =
     [(CHR 0x22, CHR 0x22), (CHR 0x5C, CHR 0x5C), (CHR ''/'', CHR ''/''),
      (CHR ''b'', CHR 0x08), (CHR ''f'', CHR 0x0C), (CHR ''n'', CHR 0x0A),
      (CHR ''r'', CHR 0x0D), (CHR ''t'', CHR 0x09)]"

definition hex_value :: "char \<Rightarrow> nat option" where
  "hex_value c = map_of (zip ''0123456789abcdef'' [0 ..< 16] @ zip ''ABCDEF'' [10 ..< 16]) c"

definition plain_step :: "char \<Rightarrow> (token list \<times> lex_mode) option" where
  "plain_step c =
     (if json_ws c then Some ([], Plain)
      else case map_of punctuation c of
        Some t \<Rightarrow> Some ([t], Plain)
      | None \<Rightarrow>
          if c = CHR 0x22 then Some ([], InString [])
          else if word_char c then Some ([], Word [c])
          else None)"

fun lex_step :: "lex_mode \<Rightarrow> char \<Rightarrow> (token list \<times> lex_mode) option" where
  "lex_step Plain c = plain_step c"
| "lex_step (Word w) c =
     (if word_char c then Some ([], Word (w @ [c]))
      else map_option (\<lambda>(ts, m). (TWord w # ts, m)) (plain_step c))"
| "lex_step (InString s) c =
     (if c = CHR 0x22 then Some ([TString s], Plain)
      else if c = CHR 0x5C then Some ([], Escape s)
      else if (of_char c :: nat) < 32 then None
      else Some ([], InString (s @ [c])))"
| "lex_step (Escape s) c =
     (if c = CHR ''u'' then Some ([], Unicode s [])
      else map_option (\<lambda>d. ([], InString (s @ [d]))) (map_of escapes c))"
| "lex_step (Unicode s h) c =
     (case hex_value c of
        None \<Rightarrow> None
      | Some _ \<Rightarrow>
          if length h < 3 then Some ([], Unicode s (h @ [c]))
          else (let code = foldl (\<lambda>n d. 16 * n + the (hex_value d)) 0 (h @ [c])
                in if code < 256 then Some ([], InString (s @ [char_of code])) else None))"

fun lex :: "lex_mode \<Rightarrow> string \<Rightarrow> token list option" where
  "lex Plain [] = Some []"
| "lex (Word w) [] = Some [TWord w]"
| "lex m [] = None"
| "lex m (c # cs) =
     (case lex_step m c of
        None \<Rightarrow> None
      | Some (ts, m') \<Rightarrow> map_option ((@) ts) (lex m' cs))"

definition digits_value :: "string \<Rightarrow> nat" where
  "digits_value ds = foldl (\<lambda>n d. 10 * n + (of_char d - 48)) 0 ds"

definition number_of_word :: "string \<Rightarrow> json option" where
  \<comment> \<open>an optional minus, an integer part without a leading zero, an optional fraction,
      an optional exponent; an integer when it has neither fraction nor exponent\<close>
  "number_of_word w =
     (let neg = (w \<noteq> [] \<and> hd w = CHR ''-'');
          r0 = (if neg then tl w else w);
          ip = takeWhile is_digit r0;
          r1 = dropWhile is_digit r0;
          has_frac = (r1 \<noteq> [] \<and> hd r1 = CHR ''.'');
          fp = (if has_frac then takeWhile is_digit (tl r1) else []);
          r2 = (if has_frac then dropWhile is_digit (tl r1) else r1);
          has_exp = (r2 \<noteq> [] \<and> hd r2 \<in> set ''eE'');
          r3 = (if has_exp then tl r2 else r2);
          eneg = (has_exp \<and> r3 \<noteq> [] \<and> hd r3 = CHR ''-'');
          r4 = (if has_exp \<and> r3 \<noteq> [] \<and> hd r3 \<in> set ''+-'' then tl r3 else r3);
          ep = (if has_exp then takeWhile is_digit r4 else []);
          r5 = (if has_exp then dropWhile is_digit r4 else r4)
      in if ip = [] \<or> (hd ip = CHR ''0'' \<and> length ip > 1) \<or> (has_frac \<and> fp = [])
            \<or> (has_exp \<and> ep = []) \<or> r5 \<noteq> []
         then None
         else if \<not> has_frac \<and> \<not> has_exp
         then Some (JInt (if neg then - int (digits_value ip) else int (digits_value ip)))
         else (let m = real (digits_value (ip @ fp)) / 10 ^ length fp;
                   v = (if eneg then m / 10 ^ digits_value ep else m * 10 ^ digits_value ep)
               in Some (JFloat (Finite (if neg then - v else v)))))"

definition value_of_word :: "string \<Rightarrow> json option" where
  "value_of_word w =
     (if w = ''true'' then Some (JBool True)
      else if w = ''false'' then Some (JBool False)
      else if w = ''null'' then Some JNull
      else if w = ''NaN'' then Some (JFloat NaN)
      else if w = ''Infinity'' then Some (JFloat PosInf)
      else if w = ''-Infinity'' then Some (JFloat NegInf)
      else number_of_word w)"

datatype frame = InArr "json list" | InObj "(string \<times> json) list" string

datatype pstate =
    Start "frame list"
  | ArrOpen "frame list"
  | ArrNext "json list" "frame list"
  | ObjOpen "frame list"
  | ObjKey "(string \<times> json) list" "frame list"
  | ObjColon "(string \<times> json) list" string "frame list"
  | ObjNext "(string \<times> json) list" "frame list"
  | Done json

fun deliver :: "json \<Rightarrow> frame list \<Rightarrow> pstate" where
  \<comment> \<open>a finished value goes to the enclosing array or object, or is the result\<close>
  "deliver v [] = Done v"
| "deliver v (InArr items # fs) = ArrNext (items @ [v]) fs"
| "deliver v (InObj kvs k # fs) = ObjNext (dict_set kvs k v) fs"

fun start_value :: "frame list \<Rightarrow> token \<Rightarrow> pstate option" where
  "start_value fs (TString s) = Some (deliver (JStr s) fs)"
| "start_value fs (TWord w) = map_option (\<lambda>v. deliver v fs) (value_of_word w)"
| "start_value fs TLBrack = Some (ArrOpen fs)"
| "start_value fs TLBrace = Some (ObjOpen fs)"
| "start_value fs _ = None"

fun parse_step :: "pstate \<Rightarrow> token \<Rightarrow> pstate option" where
  "parse_step (Start fs) t = start_value fs t"
| "parse_step (ArrOpen fs) t =
     (if t = TRBrack then Some (deliver (JList []) fs) else start_value (InArr [] # fs) t)"
| "parse_step (ArrNext items fs) t =
     (if t = TComma then Some (Start (InArr items # fs))
      else if t = TRBrack then Some (deliver (JList items) fs)
      else None)"
| "parse_step (ObjOpen fs) t =
     (case t of
        TRBrace \<Rightarrow> Some (deliver (JDict []) fs)
      | TString k \<Rightarrow> Some (ObjColon [] k fs)
      | _ \<Rightarrow> None)"
| "parse_step (ObjKey kvs fs) t =
     (case t of TString k \<Rightarrow> Some (ObjColon kvs k fs) | _ \<Rightarrow> None)"
| "parse_step (ObjColon kvs k fs) t =
     (if t = TColon then Some (Start (InObj kvs k # fs)) else None)"
| "parse_step (ObjNext kvs fs) t =
     (if t = TComma then Some (ObjKey kvs fs)
      else if t = TRBrace then Some (deliver (JDict kvs) fs)
      else None)"
| "parse_step (Done v) t = None"

fun parse_tokens :: "pstate \<Rightarrow> token list \<Rightarrow> json option" where
  "parse_tokens (Done v) [] = Some v"
| "parse_tokens st [] = None"
| "parse_tokens st (t # ts) =
     (case parse_step st t of None \<Rightarrow> None | Some st' \<Rightarrow> parse_tokens st' ts)"

definition json_loads :: "string \<Rightarrow> json option" where
  "json_loads s =
     (case lex Plain s of None \<Rightarrow> None | Some ts \<Rightarrow> parse_tokens (Start []) ts)"


section \<open>Memory extractor: the transcript\<close>

text \<open>
  \<open>MemoryExtractor._format_messages\<close>: the loop over \<open>enumerate(messages, 1)\<close> with the
  list \<open>formatted\<close> it appends to, then \<open>"\n".join(formatted)\<close>.
\<close>

definition message_line :: "nat \<Rightarrow> string \<Rightarrow> string \<Rightarrow> string" where
  \<comment> \<open>\<open>f"[{i}] {role}: {content}"\<close>\<close>
  "message_line i role content = ''['' @ str_nat i @ ''] '' @ role @ '': '' @ content"

fun format_messages_loop :: "nat \<Rightarrow> str_dict list \<Rightarrow> string list \<Rightarrow> string list" where
  "format_messages_loop i [] formatted = formatted"
| "format_messages_loop i (msg # rest) formatted =
     (let role = py_upper (dict_get msg ''role'' ''unknown'');
          content = py_strip (dict_get msg ''content'' '''')
      in format_messages_loop (Suc i) rest
           (if content \<noteq> [] then formatted @ [message_line i role content] else formatted))"

definition format_messages :: "str_dict list \<Rightarrow> string" where
  "format_messages messages = py_join ''\<newline>'' (format_messages_loop 1 messages [])"

text \<open>
  The transcript as the specification words it: one entry \<open>"[index] ROLE: content"\<close> for
  each message whose content is not empty, the content as supplied.
\<close>

definition spec_transcript_lines :: "str_dict list \<Rightarrow> string list" where
  "spec_transcript_lines messages =
     map (\<lambda>(i, msg). message_line i (py_upper (dict_get msg ''role'' ''unknown''))
                        (dict_get msg ''content'' ''''))
       (filter (\<lambda>(i, msg). dict_get msg ''content'' '''' \<noteq> [])
          (zip [1 ..< Suc (length messages)] messages))"

text \<open>
  What the loop computes: the content is trimmed first, and a message is skipped when
  nothing is left of it.
\<close>

definition transcript_lines :: "nat \<Rightarrow> str_dict list \<Rightarrow> string list" where
  "transcript_lines start messages =
     map (\<lambda>(i, msg). message_line i (py_upper (dict_get msg ''role'' ''unknown''))
                        (py_strip (dict_get msg ''content'' '''')))
       (filter (\<lambda>(i, msg). py_strip (dict_get msg ''content'' '''') \<noteq> [])
          (zip [start ..< start + length messages] messages))"


section \<open>Field validation\<close>

text \<open>
  The model classes are declared with pydantic; what follows is the part of its field
  validation these classes use, on values that come from decoded JSON. A \<open>str\<close> field
  takes a string. A \<open>float\<close> field takes a float, an integer or a boolean as the number it
  is, and numeric text. Such text is read here with the decoder's number grammar after
  trimming, as the real number it writes; pydantic's reader also takes a plus sign, a
  fraction without an integer part and underscores between digits, and rounds to a double.
  \<open>Optional[str]\<close> also takes \<open>None\<close>; a field with a default may be absent; a field
  declared with \<open>...\<close> or with bounds only is required. Keys that name no field are
  ignored.
\<close>

definition str_validator :: "json \<Rightarrow> string option" where
  "str_validator v = (case v of JStr s \<Rightarrow> Some s | _ \<Rightarrow> None)"

definition float_of_text :: "string \<Rightarrow> pyfloat option" where
  "float_of_text s =
     (case number_of_word (py_strip s) of
        Some (JInt i) \<Rightarrow> Some (Finite (of_int i))
      | Some (JFloat f) \<Rightarrow> Some f
      | _ \<Rightarrow> None)"

definition float_validator :: "json \<Rightarrow> pyfloat option" where
  "float_validator v =
     (case v of
        JFloat f \<Rightarrow> Some f
      | JInt i \<Rightarrow> Some (Finite (of_int i))
      | JBool b \<Rightarrow> Some (Finite (if b then 1 else 0))
      | JStr s \<Rightarrow> float_of_text s
      | _ \<Rightarrow> None)"

fun float_ge :: "pyfloat \<Rightarrow> real \<Rightarrow> bool" where
  \<comment> \<open>\<open>x >= b\<close> on floats; every comparison with \<open>NaN\<close> is false\<close>
  "float_ge (Finite a) b = (b \<le> a)"
| "float_ge PosInf b = True"
| "float_ge NegInf b = False"
| "float_ge NaN b = False"

fun float_le :: "pyfloat \<Rightarrow> real \<Rightarrow> bool" where
  "float_le (Finite a) b = (a \<le> b)"
| "float_le PosInf b = False"
| "float_le NegInf b = True"
| "float_le NaN b = False"

definition bounded_float :: "real \<Rightarrow> real \<Rightarrow> json \<Rightarrow> pyfloat option" where
  \<comment> \<open>\<open>float = Field(ge=lo, le=hi)\<close>\<close>
  "bounded_float lo hi v =
     (case float_validator v of
        None \<Rightarrow> None
      | Some f \<Rightarrow> if float_ge f lo \<and> float_le f hi then Some f else None)"

definition list_validator :: "(json \<Rightarrow> 'a option) \<Rightarrow> json \<Rightarrow> 'a list option" where
  \<comment> \<open>\<open>List[T]\<close>\<close>
  "list_validator item v = (case v of JList xs \<Rightarrow> those (map item xs) | _ \<Rightarrow> None)"

definition required :: "(json \<Rightarrow> 'a option) \<Rightarrow> json option \<Rightarrow> 'a option" where
  "required item v = (case v of None \<Rightarrow> None | Some x \<Rightarrow> item x)"

definition optional :: "(json \<Rightarrow> 'a option) \<Rightarrow> json option \<Rightarrow> 'a option option" where
  \<comment> \<open>\<open>Optional[T] = Field(None)\<close>\<close>
  "optional item v =
     (case v of
        None \<Rightarrow> Some None
      | Some JNull \<Rightarrow> Some None
      | Some x \<Rightarrow> map_option Some (item x))"

definition defaulted :: "'a \<Rightarrow> (json \<Rightarrow> 'a option) \<Rightarrow> json option \<Rightarrow> 'a option" where
  \<comment> \<open>a field with \<open>default\<close> or \<open>default_factory\<close>\<close>
  "defaulted dflt item v = (case v of None \<Rightarrow> Some dflt | Some x \<Rightarrow> item x)"


section \<open>Memory models\<close>

datatype PreferenceType =
  COMMUNICATION | CONTENT | BEHAVIOR | EMOTIONAL | SOCIAL | PROFESSIONAL | LIFESTYLE | TECHNICAL

definition PreferenceType_values :: "(string \<times> PreferenceType) list" where
  "PreferenceType_values =
     [(''communication'', COMMUNICATION), (''content'', CONTENT), (''behavior'', BEHAVIOR),
      (''emotional'', EMOTIONAL), (''social'', SOCIAL), (''professional'', PROFESSIONAL),
      (''lifestyle'', LIFESTYLE), (''technical'', TECHNICAL)]"

definition PreferenceType_validator :: "json \<Rightarrow> PreferenceType option" where
  \<comment> \<open>the member whose value the input equals\<close>
  "PreferenceType_validator v =
     (case v of JStr s \<Rightarrow> map_of PreferenceType_values s | _ \<Rightarrow> None)"

record EmotionalPattern =
  pattern :: string
  frequency :: pyfloat
  triggers :: "string list"
  intensity :: string
  "context" :: "string option"

definition validate_intensity :: "string \<Rightarrow> exn + string" where
  "validate_intensity v =
     (let allowed = [''low'', ''medium'', ''high'']
      in if v \<notin> set allowed then Inl (ValueError ''Intensity must be one of [low, medium, high]'')
         else Inr v)"

definition intensity_validator :: "json \<Rightarrow> string option" where
  \<comment> \<open>the field's type first, then the class's validator\<close>
  "intensity_validator v =
     (case str_validator v of
        None \<Rightarrow> None
      | Some s \<Rightarrow> (case validate_intensity s of Inl e \<Rightarrow> None | Inr s' \<Rightarrow> Some s'))"

definition new_EmotionalPattern :: "json \<Rightarrow> exn + EmotionalPattern" where
  \<comment> \<open>\<open>EmotionalPattern(**pattern_data)\<close>\<close>
  "new_EmotionalPattern data =
     (case data of
        JDict kw \<Rightarrow>
          (case (required str_validator (map_of kw ''pattern''),
                 required (bounded_float 0 1) (map_of kw ''frequency''),
                 defaulted [] (list_validator str_validator) (map_of kw ''triggers''),
                 required intensity_validator (map_of kw ''intensity''),
                 optional str_validator (map_of kw ''context'')) of
             (Some p, Some f, Some t, Some i, Some c) \<Rightarrow>
               Inr \<lparr>pattern = p, frequency = f, triggers = t, intensity = i, context = c\<rparr>
           | _ \<Rightarrow> Inl ValidationError)
      | _ \<Rightarrow> Inl TypeError)"

record UserPreference =
  category :: PreferenceType
  "value" :: string
  confidence :: pyfloat
  "context" :: "string option"
  examples :: "string list"

definition new_UserPreference :: "json \<Rightarrow> exn + UserPreference" where
  \<comment> \<open>\<open>UserPreference(**pref_data)\<close>\<close>
  "new_UserPreference data =
     (case data of
        JDict kw \<Rightarrow>
          (case (required PreferenceType_validator (map_of kw ''category''),
                 required str_validator (map_of kw ''value''),
                 required (bounded_float 0 1) (map_of kw ''confidence''),
                 optional str_validator (map_of kw ''context''),
                 defaulted [] (list_validator str_validator) (map_of kw ''examples'')) of
             (Some c, Some v, Some f, Some x, Some e) \<Rightarrow>
               Inr \<lparr>category = c, value = v, confidence = f, context = x, examples = e\<rparr>
           | _ \<Rightarrow> Inl ValidationError)
      | _ \<Rightarrow> Inl TypeError)"

record UserFact =
  fact_type :: string
  "value" :: string
  confidence :: pyfloat
  source_context :: "string option"
  temporal_relevance :: "string option"

definition new_UserFact :: "json \<Rightarrow> exn + UserFact" where
  \<comment> \<open>\<open>UserFact(**fact_data)\<close>\<close>
  "new_UserFact data =
     (case data of
        JDict kw \<Rightarrow>
          (case (required str_validator (map_of kw ''fact_type''),
                 required str_validator (map_of kw ''value''),
                 required (bounded_float 0 1) (map_of kw ''confidence''),
                 optional str_validator (map_of kw ''source_context''),
                 optional str_validator (map_of kw ''temporal_relevance'')) of
             (Some t, Some v, Some f, Some s, Some r) \<Rightarrow>
               Inr \<lparr>fact_type = t, value = v, confidence = f,
                    source_context = s, temporal_relevance = r\<rparr>
           | _ \<Rightarrow> Inl ValidationError)
      | _ \<Rightarrow> Inl TypeError)"

type_synonym datetime = nat

record UserMemory =
  user_id :: "string option"
  preferences :: "(PreferenceType \<times> UserPreference list) list"
  emotional_patterns :: "EmotionalPattern list"
  facts :: "UserFact list"
  created_at :: datetime
  updated_at :: datetime
  message_count :: int
  analysis_version :: string

record MemoryExtractionRequest =
  messages :: "str_dict list"
  user_id :: "string option"
  analysis_depth :: string


section \<open>The model gateway as the services see it\<close>

text \<open>
  Both services hold an \<open>llm_client\<close> and call its \<open>generate_response\<close> with keyword
  arguments. The client answers with text or raises; what it answers may depend on the
  calls made before. A service function takes the calls made so far and returns them
  with its own appended.
\<close>

record llm_call =
  system_prompt :: string
  user_prompt :: string
  temperature :: "real option"
  max_tokens :: "int option"

type_synonym gateway = "llm_call list \<Rightarrow> llm_call \<Rightarrow> exn + string"


section \<open>Memory extractor: reading the reply\<close>

record MemoryExtractor =
  llm_client :: gateway
  memory_extraction_prompt :: string
  message_analysis_prompt :: string

definition extraction_user_prompt :: "string \<Rightarrow> string" where
  "extraction_user_prompt formatted_messages =
     ''Analyze these chat messages and extract user memory information:\<newline>\<newline>''
     @ formatted_messages
     @ ''\<newline>\<newline>Focus on identifying patterns, preferences, and facts that would be useful for creating personalized AI responses. Provide your analysis in the specified JSON format.''"

definition cleaned_response :: "string \<Rightarrow> string" where
  \<comment> \<open>\<open>response.strip().strip('```json').strip('```').strip()\<close>\<close>
  "cleaned_response response =
     py_strip (py_strip_chars ''```'' (py_strip_chars ''```json'' (py_strip response)))"

definition parse_json_response :: "(string \<Rightarrow> json option) \<Rightarrow> string \<Rightarrow> exn + json" where
  \<comment> \<open>the \<open>try\<close> block of \<open>_extract_with_llm\<close>\<close>
  "parse_json_response loads response =
     (case loads (cleaned_response response) of
        Some extraction_data \<Rightarrow> Inr extraction_data
      | None \<Rightarrow> Inl (MemoryExtractionError ''Invalid JSON response from LLM'' JSONDecodeError))"

definition extract_with_llm ::
  "(string \<Rightarrow> json option) \<Rightarrow> MemoryExtractor \<Rightarrow> string \<Rightarrow> llm_call list
     \<Rightarrow> (exn + json) \<times> llm_call list" where
  "extract_with_llm loads self formatted_messages calls =
     (let call = \<lparr>system_prompt = memory_extraction_prompt self,
                  user_prompt = extraction_user_prompt formatted_messages,
                  temperature = Some (3 / 10), max_tokens = Some 2000\<rparr>
      in case llm_client self calls call of
           Inl e \<Rightarrow> (Inl e, calls @ [call])
         | Inr response \<Rightarrow> (parse_json_response loads response, calls @ [call]))"

definition add_preference ::
  "(PreferenceType \<times> UserPreference list) list \<Rightarrow> UserPreference
     \<Rightarrow> (PreferenceType \<times> UserPreference list) list" where
  \<comment> \<open>the two statements that file a preference under its category\<close>
  "add_preference preferences_dict preference =
     (let d = (if category preference \<notin> set (map fst preferences_dict)
               then preferences_dict @ [(category preference, [])]
               else preferences_dict)
      in map (\<lambda>(k, ps). if k = category preference then (k, ps @ [preference]) else (k, ps)) d)"

fun parse_preferences ::
  "json list \<Rightarrow> (PreferenceType \<times> UserPreference list) list
     \<Rightarrow> (PreferenceType \<times> UserPreference list) list" where
  "parse_preferences [] preferences_dict = preferences_dict"
| "parse_preferences (pref_data # rest) preferences_dict =
     (case new_UserPreference pref_data of
        Inr preference \<Rightarrow> parse_preferences rest (add_preference preferences_dict preference)
      | Inl e \<Rightarrow> parse_preferences rest preferences_dict)"

fun parse_emotional_patterns :: "json list \<Rightarrow> EmotionalPattern list \<Rightarrow> EmotionalPattern list" where
  "parse_emotional_patterns [] patterns = patterns"
| "parse_emotional_patterns (pattern_data # rest) patterns =
     (case new_EmotionalPattern pattern_data of
        Inr p \<Rightarrow> parse_emotional_patterns rest (patterns @ [p])
      | Inl e \<Rightarrow> parse_emotional_patterns rest patterns)"

fun parse_facts :: "json list \<Rightarrow> UserFact list \<Rightarrow> UserFact list" where
  "parse_facts [] fact_list = fact_list"
| "parse_facts (fact_data # rest) fact_list =
     (case new_UserFact fact_data of
        Inr f \<Rightarrow> parse_facts rest (fact_list @ [f])
      | Inl e \<Rightarrow> parse_facts rest fact_list)"

definition get_iterable :: "(string \<times> json) list \<Rightarrow> string \<Rightarrow> exn + json list" where
  \<comment> \<open>\<open>for x in extraction_data.get(key, [])\<close>: what the loop visits\<close>
  "get_iterable d key = (case map_of d key of None \<Rightarrow> Inr [] | Some v \<Rightarrow> py_iter v)"

definition messages_analyzed :: "json option \<Rightarrow> int" where
  \<comment> \<open>the \<open>isinstance\<close> chain; a boolean is an instance of \<open>int\<close>, and the integer field
      of the record stores it as 1 or 0\<close>
  "messages_analyzed raw_messages_analyzed =
     (case raw_messages_analyzed of
        Some (JInt n) \<Rightarrow> n
      | Some (JBool b) \<Rightarrow> (if b then 1 else 0)
      | Some (JList xs) \<Rightarrow> int (length xs)
      | _ \<Rightarrow> 0)"

definition parse_extraction_body :: "datetime \<Rightarrow> json \<Rightarrow> string option \<Rightarrow> exn + UserMemory" where
  \<comment> \<open>the body of the \<open>try\<close> of \<open>_parse_extraction_result\<close>; \<open>now\<close> is the clock\<close>
  "parse_extraction_body now extraction_data uid =
     (case extraction_data of
        JDict d \<Rightarrow>
          (case get_iterable d ''preferences'' of
             Inl e \<Rightarrow> Inl e
           | Inr prefs \<Rightarrow>
               (case get_iterable d ''emotional_patterns'' of
                  Inl e \<Rightarrow> Inl e
                | Inr pats \<Rightarrow>
                    (case get_iterable d ''facts'' of
                       Inl e \<Rightarrow> Inl e
                     | Inr fs \<Rightarrow>
                         Inr \<lparr>UserMemory.user_id = uid,
                              preferences = parse_preferences prefs [],
                              emotional_patterns = parse_emotional_patterns pats [],
                              facts = parse_facts fs [],
                              created_at = now,
                              updated_at = now,
                              message_count = messages_analyzed (map_of d ''messages_analyzed''),
                              analysis_version = ''1.0''\<rparr>)))
      | _ \<Rightarrow> Inl AttributeError)"

definition parse_extraction_result :: "datetime \<Rightarrow> json \<Rightarrow> string option \<Rightarrow> exn + UserMemory" where
  "parse_extraction_result now extraction_data uid =
     (case parse_extraction_body now extraction_data uid of
        Inr memory \<Rightarrow> Inr memory
      | Inl e \<Rightarrow> Inl (MemoryExtractionError ''Failed to parse extraction results'' e))"

definition enhance_memory_with_stats :: "datetime \<Rightarrow> UserMemory \<Rightarrow> str_dict list \<Rightarrow> UserMemory" where
  \<comment> \<open>the statistics it computes stay in a local variable; the record gets the count of
      the caller's messages and a new time\<close>
  "enhance_memory_with_stats now memory msgs =
     memory\<lparr>message_count := int (length msgs), updated_at := now\<rparr>"

definition extract_memory ::
  "(string \<Rightarrow> json option) \<Rightarrow> MemoryExtractor \<Rightarrow> datetime \<Rightarrow> datetime
     \<Rightarrow> MemoryExtractionRequest \<Rightarrow> llm_call list \<Rightarrow> (exn + UserMemory) \<times> llm_call list" where
  \<comment> \<open>\<open>now\<close> and \<open>later\<close> are the clock when the reply is read and when it is completed\<close>
  "extract_memory loads self now later request calls =
     (let formatted_messages = format_messages (messages request)
      in case extract_with_llm loads self formatted_messages calls of
           (Inl e, calls') \<Rightarrow> (Inl (MemoryExtractionError ''Failed to extract memory'' e), calls')
         | (Inr extraction_result, calls') \<Rightarrow>
             (case parse_extraction_result now extraction_result
                     (MemoryExtractionRequest.user_id request) of
                Inl e \<Rightarrow> (Inl (MemoryExtractionError ''Failed to extract memory'' e), calls')
              | Inr memory \<Rightarrow>
                  (Inr (enhance_memory_with_stats later memory (messages request)), calls')))"


section \<open>Properties of extraction replies\<close>

text \<open>
  The vocabulary of the statements about replies: a value in the unit interval, the
  elements of a list that a model class accepts, an element whose numeric field reads as
  a number outside the unit interval, and the intensity an element carries.
\<close>

fun unit_interval :: "pyfloat \<Rightarrow> bool" where
  "unit_interval (Finite r) = (0 \<le> r \<and> r \<le> 1)"
| "unit_interval _ = False"

definition valid_items :: "(json \<Rightarrow> exn + 'a) \<Rightarrow> json list \<Rightarrow> 'a list" where
  "valid_items new items =
     concat (map (\<lambda>x. case new x of Inr p \<Rightarrow> [p] | Inl e \<Rightarrow> []) items)"

definition out_of_range :: "string \<Rightarrow> json \<Rightarrow> bool" where
  "out_of_range key e =
     (case e of
        JDict kw \<Rightarrow>
          (case map_of kw key of
             Some v \<Rightarrow>
               (case float_validator v of Some f \<Rightarrow> \<not> unit_interval f | None \<Rightarrow> False)
           | None \<Rightarrow> False)
      | _ \<Rightarrow> False)"

definition intensity_of :: "json \<Rightarrow> json option" where
  "intensity_of e = (case e of JDict kw \<Rightarrow> map_of kw ''intensity'' | _ \<Rightarrow> None)"


section \<open>Sample inputs\<close>

text \<open>
  A reply with one acceptable element of each kind, a preference and a fact whose
  confidence is too large, a pattern whose intensity is not one of the three levels and a
  pattern whose frequency is negative; the record it is read into; a fenced reply without
  elements; a client that always answers the same text; replies that report a count of
  messages, as an integer and as a boolean.
\<close>

definition coffee_preference :: json where
  "coffee_preference =
     JDict [(''category'', JStr ''lifestyle''), (''value'', JStr ''enjoys coffee''),
            (''confidence'', JFloat (Finite (9 / 10)))]"

definition overrated_preference :: json where
  "overrated_preference =
     JDict [(''category'', JStr ''content''), (''value'', JStr ''long reads''),
            (''confidence'', JFloat (Finite (3 / 2)))]"

definition deadline_pattern :: json where
  "deadline_pattern =
     JDict [(''pattern'', JStr ''anxious with deadlines''),
            (''frequency'', JFloat (Finite (7 / 10))), (''intensity'', JStr ''medium'')]"

definition extreme_pattern :: json where
  "extreme_pattern =
     JDict [(''pattern'', JStr ''calm''),
            (''frequency'', JFloat (Finite (1 / 2))), (''intensity'', JStr ''extreme'')]"

definition negative_pattern :: json where
  "negative_pattern =
     JDict [(''pattern'', JStr ''cheerful''),
            (''frequency'', JFloat (Finite (- 1 / 10))), (''intensity'', JStr ''low'')]"

definition overrated_fact :: json where
  "overrated_fact =
     JDict [(''fact_type'', JStr ''work''), (''value'', JStr ''software engineer''),
            (''confidence'', JInt 2)]"

definition location_fact :: json where
  "location_fact =
     JDict [(''fact_type'', JStr ''location''), (''value'', JStr ''lives in New York''),
            (''confidence'', JFloat (Finite (9 / 10)))]"

definition sample_reply :: "(string \<times> json) list" where
  "sample_reply =
     [(''preferences'', JList [coffee_preference, overrated_preference]),
      (''emotional_patterns'', JList [deadline_pattern, extreme_pattern, negative_pattern]),
      (''facts'', JList [overrated_fact, location_fact]),
      (''messages_analyzed'', JList [JInt 1, JInt 2])]"

definition sample_memory :: UserMemory where
  "sample_memory =
     \<lparr>UserMemory.user_id = None,
      preferences =
        [(LIFESTYLE,
          [\<lparr>category = LIFESTYLE, UserPreference.value = ''enjoys coffee'',
            UserPreference.confidence = Finite (9 / 10), UserPreference.context = None,
            examples = []\<rparr>])],
      emotional_patterns =
        [\<lparr>pattern = ''anxious with deadlines'', frequency = Finite (7 / 10), triggers = [],
          intensity = ''medium'', EmotionalPattern.context = None\<rparr>],
      facts =
        [\<lparr>fact_type = ''location'', value = ''lives in New York'', confidence = Finite (9 / 10),
          source_context = None, temporal_relevance = None\<rparr>],
      created_at = 0, updated_at = 0, message_count = 2, analysis_version = ''1.0''\<rparr>"

definition fenced_empty_reply :: string where
  \<open>fenced_empty_reply =
     ''```json\<newline>{"preferences": [], "emotional_patterns": [], "facts": []}\<newline>```''\<close>

definition empty_memory :: "datetime \<Rightarrow> string option \<Rightarrow> UserMemory" where
  "empty_memory now uid =
     \<lparr>UserMemory.user_id = uid, preferences = [], emotional_patterns = [], facts = [],
      created_at = now, updated_at = now, message_count = 0, analysis_version = ''1.0''\<rparr>"

definition answering :: "string \<Rightarrow> gateway" where
  "answering text calls call = Inr text"

definition sample_extractor :: "string \<Rightarrow> MemoryExtractor" where
  "sample_extractor reply =
     \<lparr>llm_client = answering reply,
      memory_extraction_prompt = ''You are an expert AI psychologist and data analyst'',
      message_analysis_prompt = ''You are a conversation analyst''\<rparr>"

definition counted_reply :: string where
  \<open>counted_reply =
     ''{"preferences": [], "emotional_patterns": [], "facts": [], "messages_analyzed": 7}''\<close>

definition boolean_count_reply :: string where
  \<open>boolean_count_reply = ''{"messages_analyzed": true}''\<close>

definition sample_request :: MemoryExtractionRequest where
  "sample_request =
     \<lparr>messages = [[(''role'', ''user''), (''content'', ''I love coffee in the morning'')],
                  [(''role'', ''assistant''), (''content'', ''Coffee is popular'')]],
      MemoryExtractionRequest.user_id = Some ''test_user_123'',
      analysis_depth = ''comprehensive''\<rparr>"


section \<open>The client of the completion endpoint\<close>

text \<open>
  \<open>LLMClient\<close>. The HTTP session is the outside world. Its state is the list of the
  request bodies posted so far; \<open>generate_response\<close> takes that list and returns it with
  the body it posted. The endpoint gives, from the bodies posted before and the body
  posted now, what \<open>session.post\<close> and the two calls on its result give: a timeout, a
  failed connection, some other exception, or a status code with the decoded body (none
  when the body is not JSON). The request body is the dictionary \<open>payload\<close>.
\<close>

record LLMClient =
  api_key :: string
  base_url :: string
  default_model :: string
  default_temperature :: real
  default_max_tokens :: int
  requests_per_minute :: nat

definition str_or :: "string option \<Rightarrow> string option \<Rightarrow> string option" where
  \<comment> \<open>\<open>a or b\<close> on optional strings: \<open>None\<close> and the empty string are false\<close>
  "str_or a b = (case a of Some (c # cs) \<Rightarrow> a | _ \<Rightarrow> b)"

definition new_LLMClient ::
  "(string \<rightharpoonup> string) \<Rightarrow> string option \<Rightarrow> string option \<Rightarrow> exn + LLMClient" where
  \<comment> \<open>\<open>LLMClient(api_key, base_url)\<close> in the environment \<open>env\<close>\<close>
  "new_LLMClient env key url =
     (case str_or key (env ''GROQ_API_KEY'') of
        Some (c # cs) \<Rightarrow>
          Inr \<lparr>api_key = c # cs,
               base_url = (case str_or url (Some ''https://api.groq.com/openai/v1/chat/completions'')
                           of Some u \<Rightarrow> u | None \<Rightarrow> []),
               default_model = (case env ''GROQ_MODEL'' of
                                  Some m \<Rightarrow> m | None \<Rightarrow> ''llama-3.3-70b-versatile''),
               default_temperature = 7 / 10,
               default_max_tokens = 1000,
               requests_per_minute = 30\<rparr>
      | _ \<Rightarrow> Inl (ValueError ''GROQ_API_KEY is required''))"

definition float_or :: "real option \<Rightarrow> real \<Rightarrow> real" where
  \<comment> \<open>\<open>a or b\<close> on an optional float: \<open>None\<close> and zero are false\<close>
  "float_or a b = (case a of None \<Rightarrow> b | Some x \<Rightarrow> if x = 0 then b else x)"

definition int_or :: "int option \<Rightarrow> int \<Rightarrow> int" where
  "int_or a b = (case a of None \<Rightarrow> b | Some x \<Rightarrow> if x = 0 then b else x)"

definition request_payload ::
  "LLMClient \<Rightarrow> string \<Rightarrow> string \<Rightarrow> real option \<Rightarrow> int option \<Rightarrow> string option
     \<Rightarrow> (string \<times> json) list" where
  "request_payload self sys_prompt usr_prompt temp tokens model_name =
     [(''model'', JStr (case str_or model_name (Some (default_model self)) of
                          Some m \<Rightarrow> m | None \<Rightarrow> [])),
      (''messages'',
         JList [JDict [(''role'', JStr ''system''), (''content'', JStr sys_prompt)],
                JDict [(''role'', JStr ''user''), (''content'', JStr usr_prompt)]]),
      (''temperature'', JFloat (Finite (float_or temp (default_temperature self)))),
      (''max_tokens'', JInt (int_or tokens (default_max_tokens self)))]"

datatype http_outcome =
    TimedOut
  | ConnectionFailed
  | Raised exn
  | Response nat "json option"

fun py_truthy :: "json \<Rightarrow> bool" where
  "py_truthy JNull = False"
| "py_truthy (JBool b) = b"
| "py_truthy (JInt i) = (i \<noteq> 0)"
| "py_truthy (JFloat f) = (f \<noteq> Finite 0)"
| "py_truthy (JStr s) = (s \<noteq> [])"
| "py_truthy (JList xs) = (xs \<noteq> [])"
| "py_truthy (JDict kvs) = (kvs \<noteq> [])"

fun getitem_key :: "json \<Rightarrow> string \<Rightarrow> exn + json" where
  \<comment> \<open>\<open>v[key]\<close> with a string key\<close>
  "getitem_key (JDict kvs) k = (case map_of kvs k of Some v \<Rightarrow> Inr v | None \<Rightarrow> Inl KeyError)"
| "getitem_key _ k = Inl TypeError"

fun getitem_first :: "json \<Rightarrow> exn + json" where
  \<comment> \<open>\<open>v[0]\<close>\<close>
  "getitem_first (JList (x # xs)) = Inr x"
| "getitem_first (JList []) = Inl IndexError"
| "getitem_first (JStr (c # cs)) = Inr (JStr [c])"
| "getitem_first (JStr []) = Inl IndexError"
| "getitem_first (JDict kvs) = Inl KeyError"
| "getitem_first _ = Inl TypeError"

definition response_content :: "json \<Rightarrow> exn + string" where
  \<comment> \<open>from \<open>response_data['choices'][0]['message']['content']\<close> to \<open>content.strip()\<close>,
      the logging of \<open>usage\<close> in between\<close>
  "response_content response_data =
     (case getitem_key response_data ''choices'' of
        Inl e \<Rightarrow> Inl e
      | Inr choices \<Rightarrow>
     (case getitem_first choices of
        Inl e \<Rightarrow> Inl e
      | Inr choice \<Rightarrow>
     (case getitem_key choice ''message'' of
        Inl e \<Rightarrow> Inl e
      | Inr msg \<Rightarrow>
     (case getitem_key msg ''content'' of
        Inl e \<Rightarrow> Inl e
      | Inr content \<Rightarrow>
     (case getitem_key response_data ''usage'' of
        Inr (JDict usage) \<Rightarrow>
          (case content of JStr s \<Rightarrow> Inr (py_strip s) | _ \<Rightarrow> Inl AttributeError)
      | Inr usage \<Rightarrow>
          if py_truthy usage then Inl AttributeError
          else (case content of JStr s \<Rightarrow> Inr (py_strip s) | _ \<Rightarrow> Inl AttributeError)
      | Inl e \<Rightarrow>
          (case content of JStr s \<Rightarrow> Inr (py_strip s) | _ \<Rightarrow> Inl AttributeError))))))"

type_synonym endpoint = "(string \<times> json) list list \<Rightarrow> (string \<times> json) list \<Rightarrow> http_outcome"

definition client_error :: "exn \<Rightarrow> exn" where
  \<comment> \<open>the last two handlers of the \<open>try\<close>: \<open>except KeyError\<close>, then \<open>except Exception\<close>\<close>
  "client_error e =
     (case e of
        KeyError \<Rightarrow> LLMClientError ''Invalid response format'' None
      | _ \<Rightarrow> LLMClientError ''Unexpected error'' (Some e))"

definition LLMClient_generate_response ::
  "LLMClient \<Rightarrow> endpoint \<Rightarrow> (string \<times> json) list list \<Rightarrow> string \<Rightarrow> string
     \<Rightarrow> real option \<Rightarrow> int option \<Rightarrow> string option
     \<Rightarrow> (exn + string) \<times> (string \<times> json) list list" where
  "LLMClient_generate_response self endpoint posted sys_prompt usr_prompt temp tokens model_name =
     (let payload = request_payload self sys_prompt usr_prompt temp tokens model_name
      in (case endpoint posted payload of
            TimedOut \<Rightarrow> Inl (LLMClientError ''Request timed out'' None)
          | ConnectionFailed \<Rightarrow> Inl (LLMClientError ''Connection failed'' None)
          | Raised e \<Rightarrow> Inl (client_error e)
          | Response status body \<Rightarrow>
              if 400 \<le> status \<and> status < 600
              then Inl (LLMClientError (''API error: '' @ str_nat status) None)
              else (case body of
                      None \<Rightarrow> Inl (client_error JSONDecodeError)
                    | Some response_data \<Rightarrow>
                        (case response_content response_data of
                           Inr content \<Rightarrow> Inr content
                         | Inl e \<Rightarrow> Inl (client_error e))),
          posted @ [payload]))"

definition client_gateway :: "LLMClient \<Rightarrow> endpoint \<Rightarrow> gateway" where
  \<comment> \<open>the client as the services hold it: they pass no model name\<close>
  "client_gateway self endpoint calls call =
     fst (LLMClient_generate_response self endpoint
            (map (\<lambda>c. request_payload self (llm_call.system_prompt c) (user_prompt c)
                         (temperature c) (max_tokens c) None) calls)
            (llm_call.system_prompt call) (user_prompt call) (temperature call)
            (max_tokens call) None)"


section \<open>Personality models\<close>

datatype PersonalityType =
  MENTOR | FRIEND | THERAPIST | PROFESSIONAL | CREATIVE | ANALYTICAL | ENTHUSIASTIC

definition all_personality_types :: "PersonalityType list" where
  \<comment> \<open>\<open>list(PersonalityType)\<close>\<close>
  "all_personality_types =
     [MENTOR, FRIEND, THERAPIST, PROFESSIONAL, CREATIVE, ANALYTICAL, ENTHUSIASTIC]"

record ToneCharacteristics =
  formality :: string
  empathy :: string
  directness :: string
  creativity :: string
  humor :: string
  supportiveness :: string

record PersonalityProfile =
  name :: string
  "type" :: PersonalityType
  description :: string
  characteristics :: ToneCharacteristics
  system_prompt :: string
  response_guidelines :: "string list"
  vocabulary_preferences :: "string list"
  response_patterns :: "string list"

record PersonalityTransformationRequest =
  original_response :: string
  target_personality :: PersonalityType
  user_memory :: "(string \<times> json) list option"
  conversation_context :: "str_dict list option"
  user_message :: "string option"

record PersonalityTransformationResponse =
  original_response :: string
  transformed_response :: string
  personality_type :: PersonalityType
  transformation_explanation :: string
  tone_analysis :: "(string \<times> string) list"
  confidence_score :: real

record PersonalityComparison =
  user_message :: string
  base_response :: string
  personality_responses :: "(PersonalityType \<times> string) list"
  comparison_analysis :: "(string \<times> string) list"
  recommendations :: "string list"

record ResponseGenerationRequest =
  user_message :: string
  personality :: PersonalityType
  user_memory :: "(string \<times> json) list option"
  conversation_history :: "str_dict list option"
  "context" :: "string option"

record ResponseGenerationResponse =
  response :: string
  personality :: PersonalityType
  personalization_elements :: "string list"
  tone_metrics :: "(string \<times> string) list"
  memory_references :: "string list"
  generation_confidence :: real


section \<open>Personality engine\<close>

text \<open>
  The engine holds the client and the table of profiles. \<open>_initialize_personalities\<close>
  fills the table with one profile for each of the seven types; the profiles' texts are
  content, and the table is built here from any assignment of a profile to each type.
  The prompts put Python values into text with an f-string; \<open>fmt\<close> stands for that
  rendering (\<open>str\<close> of the value).
\<close>

record PersonalityEngine =
  llm_client :: gateway
  personalities :: "PersonalityType \<rightharpoonup> PersonalityProfile"

definition initialize_personalities ::
  "(PersonalityType \<Rightarrow> PersonalityProfile) \<Rightarrow> (PersonalityType \<rightharpoonup> PersonalityProfile)" where
  "initialize_personalities profile_of = (\<lambda>t. Some (profile_of t))"

definition new_PersonalityEngine ::
  "(PersonalityType \<Rightarrow> PersonalityProfile) \<Rightarrow> gateway \<Rightarrow> PersonalityEngine" where
  "new_PersonalityEngine profile_of client =
     \<lparr>llm_client = client, personalities = initialize_personalities profile_of\<rparr>"

definition format_memory_context :: "(json \<Rightarrow> string) \<Rightarrow> (string \<times> json) list \<Rightarrow> string" where
  "format_memory_context fmt memory =
     (if memory = [] then ''''
      else py_join ''; ''
        ((case map_of memory ''preferences'' of
            Some v \<Rightarrow> [''Preferences: '' @ fmt v] | None \<Rightarrow> [])
         @ (case map_of memory ''emotional_patterns'' of
            Some v \<Rightarrow> [''Emotional patterns: '' @ fmt v] | None \<Rightarrow> [])
         @ (case map_of memory ''facts'' of
            Some v \<Rightarrow> [''Known facts: '' @ fmt v] | None \<Rightarrow> [])))"

definition format_conversation_context :: "str_dict list \<Rightarrow> string" where
  "format_conversation_context conversation =
     (if conversation = [] then ''''
      else py_join '' | ''
        (map (\<lambda>msg. dict_get msg ''role'' ''unknown'' @ '': ''
                       @ take 100 (dict_get msg ''content'' ''''))
           (drop (length conversation - 3) conversation)))"

definition build_context_prompt ::
  "(json \<Rightarrow> string) \<Rightarrow> string \<Rightarrow> PersonalityProfile \<Rightarrow> (string \<times> json) list option
     \<Rightarrow> str_dict list option \<Rightarrow> string option \<Rightarrow> string" where
  "build_context_prompt fmt message profile memory history ctx =
     py_join ''\<newline>''
       ([''User message: '' @ message]
        @ (case ctx of
             Some (c # cs) \<Rightarrow> [''\<newline>Additional context: '' @ c # cs] | _ \<Rightarrow> [])
        @ (case memory of
             Some (kv # kvs) \<Rightarrow>
               [''\<newline>User information: '' @ format_memory_context fmt (kv # kvs)]
           | _ \<Rightarrow> [])
        @ (case history of
             Some (m # ms) \<Rightarrow>
               [''\<newline>Recent conversation: '' @ format_conversation_context (m # ms)]
           | _ \<Rightarrow> [])
        @ [''\<newline>Generate a response that matches your personality and uses the context above.''])"

definition characteristics_dict :: "ToneCharacteristics \<Rightarrow> json" where
  \<comment> \<open>\<open>characteristics.dict()\<close>\<close>
  "characteristics_dict c =
     JDict [(''formality'', JStr (formality c)), (''empathy'', JStr (empathy c)),
            (''directness'', JStr (directness c)), (''creativity'', JStr (creativity c)),
            (''humor'', JStr (humor c)), (''supportiveness'', JStr (supportiveness c))]"

definition build_transformation_prompt ::
  "(json \<Rightarrow> string) \<Rightarrow> string \<Rightarrow> PersonalityProfile \<Rightarrow> (string \<times> json) list option
     \<Rightarrow> str_dict list option \<Rightarrow> string option \<Rightarrow> string" where
  "build_transformation_prompt fmt original target_profile memory conversation message =
     py_join ''\<newline>''
       ([''Transform this response to match the '' @ name target_profile @ '' personality:'',
         ''\<newline>Original response: '' @ original,
         ''\<newline>Keep the core meaning but adapt the tone, style, and language to match the target personality.'']
        @ (case message of
             Some (c # cs) \<Rightarrow> [''\<newline>Original user message: '' @ c # cs] | _ \<Rightarrow> [])
        @ (case memory of
             Some (kv # kvs) \<Rightarrow>
               [''\<newline>User context: '' @ format_memory_context fmt (kv # kvs)]
           | _ \<Rightarrow> [])
        @ (case conversation of
             Some (m # ms) \<Rightarrow>
               [''\<newline>Recent conversation: '' @ format_conversation_context (m # ms)]
           | _ \<Rightarrow> [])
        @ [''\<newline>Personality characteristics: ''
             @ fmt (characteristics_dict (characteristics target_profile)),
           ''\<newline>Response guidelines: '' @ py_join ''; '' (response_guidelines target_profile),
           ''\<newline>Transform the response now:''])"

definition tone_analysis_prompt :: "string \<Rightarrow> string \<Rightarrow> PersonalityProfile \<Rightarrow> string" where
  "tone_analysis_prompt original transformed target_profile =
     ''Compare these two responses and analyze the tone changes:\<newline>\<newline>Original: ''
     @ original @ ''\<newline>Transformed: '' @ transformed
     @ ''\<newline>Target personality: '' @ name target_profile
     @ ''\<newline>\<newline>Analyze changes in:\<newline>- Formality\<newline>- Empathy level\<newline>- Directness\<newline>- Creativity\<newline>- Humor\<newline>- Supportiveness\<newline>\<newline>Provide a brief analysis of what changed and how well it matches the target personality.''"

definition tone_analysis_call :: "string \<Rightarrow> string \<Rightarrow> PersonalityProfile \<Rightarrow> llm_call" where
  "tone_analysis_call original transformed target_profile =
     \<lparr>llm_call.system_prompt = ''You are an expert in communication analysis.'',
      user_prompt = tone_analysis_prompt original transformed target_profile,
      temperature = Some (3 / 10), max_tokens = Some 300\<rparr>"

definition analyze_tone_changes ::
  "PersonalityEngine \<Rightarrow> string \<Rightarrow> string \<Rightarrow> PersonalityProfile \<Rightarrow> llm_call list
     \<Rightarrow> (string \<times> string) list \<times> llm_call list" where
  "analyze_tone_changes self original transformed target_profile calls =
     (let call = tone_analysis_call original transformed target_profile
      in case llm_client self calls call of
           Inr reply \<Rightarrow> ([(''analysis'', reply)], calls @ [call])
         | Inl e \<Rightarrow> ([(''analysis'', ''Tone analysis unavailable'')], calls @ [call]))"

definition explanation_prompt :: "string \<Rightarrow> string \<Rightarrow> PersonalityProfile \<Rightarrow> string" where
  "explanation_prompt original transformed target_profile =
     ''Explain how this response was transformed to match the '' @ name target_profile
     @ '' personality:\<newline>\<newline>Original: '' @ original
     @ ''\<newline>Transformed: '' @ transformed
     @ ''\<newline>\<newline>Explain the specific changes made in tone, language, and approach. Be concise and informative.''"

definition explanation_call :: "string \<Rightarrow> string \<Rightarrow> PersonalityProfile \<Rightarrow> llm_call" where
  "explanation_call original transformed target_profile =
     \<lparr>llm_call.system_prompt = ''You are an expert in personality communication.'',
      user_prompt = explanation_prompt original transformed target_profile,
      temperature = Some (3 / 10), max_tokens = Some 200\<rparr>"

definition generate_transformation_explanation ::
  "PersonalityEngine \<Rightarrow> string \<Rightarrow> string \<Rightarrow> PersonalityProfile \<Rightarrow> llm_call list
     \<Rightarrow> string \<times> llm_call list" where
  "generate_transformation_explanation self original transformed target_profile calls =
     (let call = explanation_call original transformed target_profile
      in case llm_client self calls call of
           Inr reply \<Rightarrow> (reply, calls @ [call])
         | Inl e \<Rightarrow> (''Transformation explanation unavailable'', calls @ [call]))"

definition transformation_call ::
  "(json \<Rightarrow> string) \<Rightarrow> PersonalityTransformationRequest \<Rightarrow> PersonalityProfile \<Rightarrow> llm_call" where
  "transformation_call fmt request target_profile =
     \<lparr>llm_call.system_prompt = system_prompt target_profile,
      user_prompt =
        build_transformation_prompt fmt
          (PersonalityTransformationRequest.original_response request)
          target_profile
          (PersonalityTransformationRequest.user_memory request)
          (conversation_context request)
          (PersonalityTransformationRequest.user_message request),
      temperature = Some (if target_personality request = FRIEND then 7 / 10 else 5 / 10),
      max_tokens = Some 500\<rparr>"

definition transform_response ::
  "PersonalityEngine \<Rightarrow> (json \<Rightarrow> string) \<Rightarrow> PersonalityTransformationRequest \<Rightarrow> llm_call list
     \<Rightarrow> (exn + PersonalityTransformationResponse) \<times> llm_call list" where
  "transform_response self fmt request calls =
     (case personalities self (target_personality request) of
        None \<Rightarrow> (Inl (PersonalityEngineError ''Failed to transform response'' KeyError), calls)
      | Some target_profile \<Rightarrow>
          (let call = transformation_call fmt request target_profile
           in case llm_client self calls call of
                Inl e \<Rightarrow>
                  (Inl (PersonalityEngineError ''Failed to transform response'' e), calls @ [call])
              | Inr transformed \<Rightarrow>
                  (let (analysis, calls1) =
                         analyze_tone_changes self
                           (PersonalityTransformationRequest.original_response request)
                           transformed target_profile (calls @ [call]);
                       (explanation, calls2) =
                         generate_transformation_explanation self
                           (PersonalityTransformationRequest.original_response request)
                           transformed target_profile calls1
                   in (Inr \<lparr>PersonalityTransformationResponse.original_response =
                               PersonalityTransformationRequest.original_response request,
                             transformed_response = transformed,
                             personality_type = target_personality request,
                             transformation_explanation = explanation,
                             tone_analysis = analysis,
                             confidence_score = 85 / 100\<rparr>,
                       calls2))))"

definition analyze_response_tone :: "string \<Rightarrow> PersonalityProfile \<Rightarrow> (string \<times> string) list" where
  "analyze_response_tone reply profile =
     [(''personality_match'', ''high''), (''tone_consistency'', ''good''),
      (''clarity'', ''high''), (''engagement'', ''medium'')]"

fun personalization_loop :: "string \<Rightarrow> json list \<Rightarrow> string list \<Rightarrow> exn + string list" where
  "personalization_loop reply [] elements = Inr elements"
| "personalization_loop reply (pref # rest) elements =
     (case pref of
        JStr s \<Rightarrow>
          personalization_loop reply rest
            (if py_in (py_lower s) (py_lower reply)
             then elements @ [''Referenced preference: '' @ s] else elements)
      | _ \<Rightarrow> Inl AttributeError)"

definition extract_personalization_elements ::
  "string \<Rightarrow> (string \<times> json) list option \<Rightarrow> exn + string list" where
  "extract_personalization_elements reply memory =
     (case memory of
        None \<Rightarrow> Inr []
      | Some [] \<Rightarrow> Inr []
      | Some um \<Rightarrow>
          (case map_of um ''preferences'' of
             None \<Rightarrow> Inr []
           | Some prefs \<Rightarrow>
               (case py_iter prefs of
                  Inl e \<Rightarrow> Inl e
                | Inr items \<Rightarrow> personalization_loop reply items [])))"

fun references_loop :: "string \<Rightarrow> json list \<Rightarrow> string list \<Rightarrow> exn + string list" where
  "references_loop reply [] references = Inr references"
| "references_loop reply (item # rest) references =
     (case item of
        JDict kw \<Rightarrow>
          (case map_of kw ''value'' of
             None \<Rightarrow> references_loop reply rest references
           | Some (JStr v) \<Rightarrow>
               references_loop reply rest
                 (if py_in (py_lower v) (py_lower reply)
                  then references @ [''Referenced fact: '' @ v] else references)
           | Some _ \<Rightarrow> Inl AttributeError)
      | _ \<Rightarrow> references_loop reply rest references)"

definition extract_memory_references ::
  "string \<Rightarrow> (string \<times> json) list option \<Rightarrow> exn + string list" where
  "extract_memory_references reply memory =
     (case memory of
        None \<Rightarrow> Inr []
      | Some [] \<Rightarrow> Inr []
      | Some um \<Rightarrow>
          (case map_of um ''facts'' of
             None \<Rightarrow> Inr []
           | Some fs \<Rightarrow>
               (case py_iter fs of
                  Inl e \<Rightarrow> Inl e
                | Inr items \<Rightarrow> references_loop reply items [])))"

definition generation_call ::
  "(json \<Rightarrow> string) \<Rightarrow> ResponseGenerationRequest \<Rightarrow> PersonalityProfile \<Rightarrow> llm_call" where
  "generation_call fmt request profile =
     \<lparr>llm_call.system_prompt = system_prompt profile,
      user_prompt =
        build_context_prompt fmt (ResponseGenerationRequest.user_message request)
          profile (ResponseGenerationRequest.user_memory request)
          (conversation_history request)
          (ResponseGenerationRequest.context request),
      temperature =
        Some (if ResponseGenerationRequest.personality request = FRIEND then 7 / 10 else 5 / 10),
      max_tokens = Some 500\<rparr>"

definition generate_response ::
  "PersonalityEngine \<Rightarrow> (json \<Rightarrow> string) \<Rightarrow> ResponseGenerationRequest \<Rightarrow> llm_call list
     \<Rightarrow> (exn + ResponseGenerationResponse) \<times> llm_call list" where
  "generate_response self fmt request calls =
     (case personalities self (ResponseGenerationRequest.personality request) of
        None \<Rightarrow> (Inl (PersonalityEngineError ''Failed to generate response'' KeyError), calls)
      | Some profile \<Rightarrow>
          (let call = generation_call fmt request profile
           in case llm_client self calls call of
                Inl e \<Rightarrow>
                  (Inl (PersonalityEngineError ''Failed to generate response'' e), calls @ [call])
              | Inr reply \<Rightarrow>
                  (case extract_personalization_elements reply
                          (ResponseGenerationRequest.user_memory request) of
                     Inl e \<Rightarrow>
                       (Inl (PersonalityEngineError ''Failed to generate response'' e),
                        calls @ [call])
                   | Inr elements \<Rightarrow>
                       (case extract_memory_references reply
                               (ResponseGenerationRequest.user_memory request) of
                          Inl e \<Rightarrow>
                            (Inl (PersonalityEngineError ''Failed to generate response'' e),
                             calls @ [call])
                        | Inr references \<Rightarrow>
                            (Inr \<lparr>response = reply,
                                  ResponseGenerationResponse.personality =
                                    ResponseGenerationRequest.personality request,
                                  personalization_elements = elements,
                                  tone_metrics = analyze_response_tone reply profile,
                                  memory_references = references,
                                  generation_confidence = 88 / 100\<rparr>,
                             calls @ [call])))))"

definition comparison_request :: "string \<Rightarrow> PersonalityType \<Rightarrow> ResponseGenerationRequest" where
  \<comment> \<open>\<open>ResponseGenerationRequest(user_message=user_message, personality=personality)\<close>\<close>
  "comparison_request message p =
     \<lparr>ResponseGenerationRequest.user_message = message,
      ResponseGenerationRequest.personality = p,
      ResponseGenerationRequest.user_memory = None,
      conversation_history = None,
      ResponseGenerationRequest.context = None\<rparr>"

fun compare_loop ::
  "PersonalityEngine \<Rightarrow> (json \<Rightarrow> string) \<Rightarrow> string \<Rightarrow> PersonalityType list
     \<Rightarrow> (PersonalityType \<times> string) list \<Rightarrow> llm_call list
     \<Rightarrow> (exn + (PersonalityType \<times> string) list) \<times> llm_call list" where
  "compare_loop self fmt message [] responses calls = (Inr responses, calls)"
| "compare_loop self fmt message (p # rest) responses calls =
     (case generate_response self fmt (comparison_request message p) calls of
        (Inl e, calls') \<Rightarrow> (Inl e, calls')
      | (Inr r, calls') \<Rightarrow>
          compare_loop self fmt message rest (dict_set responses p (response r)) calls')"

definition analyze_response_differences ::
  "string \<Rightarrow> (PersonalityType \<times> string) list \<Rightarrow> (string \<times> string) list" where
  "analyze_response_differences base responses =
     [(''tone_variety'', ''high''), (''approach_differences'', ''significant''),
      (''length_variations'', ''notable''), (''emotional_range'', ''wide'')]"

definition generate_usage_recommendations ::
  "string \<Rightarrow> (PersonalityType \<times> string) list \<Rightarrow> string list" where
  "generate_usage_recommendations message responses =
     [''Use Mentor for guidance and advice'', ''Use Friend for casual conversation'',
      ''Use Therapist for emotional support'', ''Use Professional for formal assistance'']"

definition compare_personalities ::
  "PersonalityEngine \<Rightarrow> (json \<Rightarrow> string) \<Rightarrow> string \<Rightarrow> string \<Rightarrow> PersonalityType list option
     \<Rightarrow> llm_call list \<Rightarrow> (exn + PersonalityComparison) \<times> llm_call list" where
  "compare_personalities self fmt message base chosen calls =
     (case compare_loop self fmt message
             (case chosen of None \<Rightarrow> all_personality_types | Some ps \<Rightarrow> ps) [] calls of
        (Inl e, calls') \<Rightarrow>
          (Inl (PersonalityEngineError ''Failed to compare personalities'' e), calls')
      | (Inr responses, calls') \<Rightarrow>
          (Inr \<lparr>PersonalityComparison.user_message = message,
                base_response = base,
                personality_responses = responses,
                comparison_analysis = analyze_response_differences base responses,
                recommendations = generate_usage_recommendations message responses\<rparr>,
           calls'))"


section \<open>Properties of generated responses\<close>

text \<open>
  The vocabulary of the statements about the engine: the fact values of a memory, a
  memory whose fact values are all text, and the exception a failed generation raises.
\<close>

definition fact_values :: "json list \<Rightarrow> string list" where
  \<comment> \<open>the \<open>value\<close> of every object among the items that has one\<close>
  "fact_values items =
     concat (map (\<lambda>item. case item of
                            JDict kw \<Rightarrow> (case map_of kw ''value'' of
                                          Some (JStr v) \<Rightarrow> [v] | _ \<Rightarrow> [])
                          | _ \<Rightarrow> []) items)"

definition text_valued :: "json list \<Rightarrow> bool" where
  \<comment> \<open>no object among the items has a \<open>value\<close> that is not text\<close>
  "text_valued items =
     list_all (\<lambda>item. case item of
                        JDict kw \<Rightarrow> (case map_of kw ''value'' of
                                      None \<Rightarrow> True | Some (JStr v) \<Rightarrow> True | Some _ \<Rightarrow> False)
                      | _ \<Rightarrow> True) items"

definition generation_failed :: "exn \<Rightarrow> bool" where
  "generation_failed e \<longleftrightarrow>
     (case e of PersonalityEngineError text cause \<Rightarrow> text = ''Failed to generate response''
              | _ \<Rightarrow> False)"


section \<open>Sample inputs for the engine\<close>

text \<open>
  A profile for each type, a rendering of values, clients that raise from or at a given
  call, an environment with an API key and the client built in it, a memory with one
  fact, the memory, the reply and the request of the engine's test of a generation with
  memory, and an endpoint that answers only a body with the default sampling parameters.
\<close>

definition sample_profile :: "PersonalityType \<Rightarrow> PersonalityProfile" where
  "sample_profile t =
     \<lparr>name = (case t of MENTOR \<Rightarrow> ''Wise Mentor'' | FRIEND \<Rightarrow> ''Witty Friend''
                | THERAPIST \<Rightarrow> ''Empathetic Therapist''
                | PROFESSIONAL \<Rightarrow> ''Professional Assistant'' | CREATIVE \<Rightarrow> ''Creative Muse''
                | ANALYTICAL \<Rightarrow> ''Analytical Thinker''
                | ENTHUSIASTIC \<Rightarrow> ''Enthusiastic Cheerleader''),
      type = t,
      description = ''a sample profile'',
      characteristics =
        \<lparr>formality = ''semi-formal'', empathy = ''high'', directness = ''medium'',
         creativity = ''medium'', humor = ''low'', supportiveness = ''high''\<rparr>,
      system_prompt = ''You are a helpful companion.'',
      response_guidelines = [''Provide structured, actionable advice''],
      vocabulary_preferences = [''wisdom''],
      response_patterns = [''Consider taking these steps...'']\<rparr>"

definition sample_fmt :: "json \<Rightarrow> string" where
  "sample_fmt v = ''<value>''"

definition failing_from :: "nat \<Rightarrow> string \<Rightarrow> gateway" where
  \<comment> \<open>answers the first \<open>n\<close> calls and raises at every later one\<close>
  "failing_from n text calls call =
     (if length calls < n then Inr text else Inl (Exception ''LLM API error''))"

definition failing_at :: "nat \<Rightarrow> string \<Rightarrow> gateway" where
  \<comment> \<open>raises at call number \<open>n\<close>, counted from 0, and answers every other one\<close>
  "failing_at n text calls call =
     (if length calls = n then Inl (Exception ''LLM API error'') else Inr text)"

definition sample_environment :: "string \<rightharpoonup> string" where
  "sample_environment = [''GROQ_API_KEY'' \<mapsto> ''gsk_test'']"

definition sample_client :: LLMClient where
  "sample_client =
     \<lparr>api_key = ''gsk_test'',
      base_url = ''https://api.groq.com/openai/v1/chat/completions'',
      default_model = ''llama-3.3-70b-versatile'',
      default_temperature = 7 / 10, default_max_tokens = 1000, requests_per_minute = 30\<rparr>"

definition engineer_memory :: "(string \<times> json) list" where
  "engineer_memory =
     [(''facts'', JList [JDict [(''value'', JStr ''software engineer''),
                                (''confidence'', JFloat (Finite (9 / 10)))]])]"

definition sample_user_memory :: "(string \<times> json) list" where
  \<comment> \<open>the fixture \<open>sample_user_memory\<close> of the engine's tests\<close>
  "sample_user_memory =
     [(''preferences'', JDict [(''communication'', JStr ''casual''),
                               (''content'', JStr ''technical topics'')]),
      (''emotional_patterns'', JList [JStr ''gets anxious with deadlines'']),
      (''facts'', JDict [(''profession'', JStr ''software engineer''),
                         (''location'', JStr ''New York'')])]"

definition engineer_reply :: string where
  "engineer_reply = ''As a fellow software engineer, I understand the pressure.''"

definition memory_request :: "(string \<times> json) list \<Rightarrow> ResponseGenerationRequest" where
  \<comment> \<open>the request of \<open>test_generate_response_with_memory\<close>, for a given memory\<close>
  "memory_request um =
     \<lparr>ResponseGenerationRequest.user_message = ''Work is stressful'',
      ResponseGenerationRequest.personality = PROFESSIONAL,
      ResponseGenerationRequest.user_memory = Some um,
      conversation_history = None,
      ResponseGenerationRequest.context = None\<rparr>"

definition completion :: "string \<Rightarrow> json" where
  \<comment> \<open>the body of a completion holding the text\<close>
  "completion text =
     JDict [(''choices'',
             JList [JDict [(''message'', JDict [(''role'', JStr ''assistant''),
                                                (''content'', JStr text)])]])]"

definition defaults_only :: "string \<Rightarrow> endpoint" where
  \<comment> \<open>answers a body that carries the temperature 0.7 and 1000 tokens, and refuses every
      other body with status 400\<close>
  "defaults_only text posted body =
     (if map_of body ''temperature'' = Some (JFloat (Finite (7 / 10)))
         \<and> map_of body ''max_tokens'' = Some (JInt 1000)
      then Response 200 (Some (completion text))
      else Response 400 None)"


section \<open>Results\<close>

subsection \<open>Validation of the elements of a reply\<close>

lemma unit_interval_iff: "unit_interval f \<longleftrightarrow> float_ge f 0 \<and> float_le f 1"
  by (cases f) auto

lemma bounded_float_unit: "bounded_float 0 1 v = Some f \<Longrightarrow> unit_interval f"
  by (auto simp: bounded_float_def unit_interval_iff split: option.splits if_splits)

lemma bounded_float_out_of_range:
  "float_validator v = Some f \<Longrightarrow> \<not> unit_interval f \<Longrightarrow> bounded_float 0 1 v = None"
  by (auto simp: bounded_float_def unit_interval_iff)

lemma new_UserPreference_unit:
  "new_UserPreference e = Inr p \<Longrightarrow> unit_interval (UserPreference.confidence p)"
  by (auto simp: new_UserPreference_def required_def split: json.splits option.splits
           dest: bounded_float_unit)


lemma new_EmotionalPattern_unit:
  "new_EmotionalPattern e = Inr p \<Longrightarrow> unit_interval (frequency p)"
  by (auto simp: new_EmotionalPattern_def required_def split: json.splits option.splits
           dest: bounded_float_unit)

lemma new_UserFact_unit:
  "new_UserFact e = Inr p \<Longrightarrow> unit_interval (UserFact.confidence p)"
  by (auto simp: new_UserFact_def required_def split: json.splits option.splits
           dest: bounded_float_unit)

lemma out_of_rangeD:
  assumes "out_of_range key e"
  obtains kw v where "e = JDict kw" and "map_of kw key = Some v" and "bounded_float 0 1 v = None"
proof -
  from assms obtain kw where e: "e = JDict kw"
    by (cases e) (simp_all add: out_of_range_def)
  with assms obtain v where v: "map_of kw key = Some v"
    by (cases "map_of kw key") (simp_all add: out_of_range_def)
  with assms e obtain f where "float_validator v = Some f" and "\<not> unit_interval f"
    by (cases "float_validator v") (simp_all add: out_of_range_def)
  then have "bounded_float 0 1 v = None"
    by (rule bounded_float_out_of_range)
  with e v show thesis by (rule that)
qed

lemma new_UserPreference_out_of_range:
  assumes "out_of_range ''confidence'' e"
  shows "new_UserPreference e = Inl ValidationError"
proof -
  from assms obtain kw v where "e = JDict kw" "map_of kw ''confidence'' = Some v"
    "bounded_float 0 1 v = None" by (rule out_of_rangeD)
  then show ?thesis
    by (simp add: new_UserPreference_def required_def split: option.splits)
qed

lemma new_EmotionalPattern_out_of_range:
  assumes "out_of_range ''frequency'' e"
  shows "new_EmotionalPattern e = Inl ValidationError"
proof -
  from assms obtain kw v where "e = JDict kw" "map_of kw ''frequency'' = Some v"
    "bounded_float 0 1 v = None" by (rule out_of_rangeD)
  then show ?thesis
    by (simp add: new_EmotionalPattern_def required_def split: option.splits)
qed

lemma new_UserFact_out_of_range:
  assumes "out_of_range ''confidence'' e"
  shows "new_UserFact e = Inl ValidationError"
proof -
  from assms obtain kw v where "e = JDict kw" "map_of kw ''confidence'' = Some v"
    "bounded_float 0 1 v = None" by (rule out_of_rangeD)
  then show ?thesis
    by (simp add: new_UserFact_def required_def split: option.splits)
qed

lemma new_EmotionalPattern_intensity:
  assumes "intensity_of e \<notin> {Some (JStr ''low''), Some (JStr ''medium''), Some (JStr ''high'')}"
  shows "isl (new_EmotionalPattern e)"
proof (cases e)
  case (JDict kw)
  have "required intensity_validator (map_of kw ''intensity'') = None"
  proof (cases "map_of kw ''intensity''")
    case None then show ?thesis by (simp add: required_def)
  next
    case (Some v)
    with assms JDict have v: "v \<noteq> JStr ''low''" "v \<noteq> JStr ''medium''" "v \<noteq> JStr ''high''"
      by (auto simp: intensity_of_def)
    show ?thesis
    proof (cases v)
      case (JStr s)
      with v have "s \<notin> set [''low'', ''medium'', ''high'']" by auto
      then show ?thesis using Some JStr
        by (simp add: required_def intensity_validator_def str_validator_def
              validate_intensity_def)
    qed (simp_all add: Some required_def intensity_validator_def str_validator_def)
  qed
  then show ?thesis using JDict
    by (simp add: new_EmotionalPattern_def split: option.splits)
qed (simp_all add: new_EmotionalPattern_def)

lemma parse_emotional_patterns_valid:
  "parse_emotional_patterns items acc = acc @ valid_items new_EmotionalPattern items"
  by (induction items arbitrary: acc) (auto simp: valid_items_def split: sum.splits)

lemma parse_facts_valid:
  "parse_facts items acc = acc @ valid_items new_UserFact items"
  by (induction items arbitrary: acc) (auto simp: valid_items_def split: sum.splits)

lemma parse_preferences_valid:
  "parse_preferences items acc = foldl add_preference acc (valid_items new_UserPreference items)"
  by (induction items arbitrary: acc) (auto simp: valid_items_def split: sum.splits)


lemma valid_items_drop:
  "isl (new e) \<Longrightarrow> valid_items new (xs @ e # ys) = valid_items new (xs @ ys)"
  by (auto simp: valid_items_def split: sum.splits)

lemma valid_items_set:
  "p \<in> set (valid_items new items) \<Longrightarrow> \<exists>e \<in> set items. new e = Inr p"
  by (auto simp: valid_items_def split: sum.splits)


lemma add_preference_member:
  assumes "(k, ps) \<in> set (add_preference d p)" and "q \<in> set ps"
  shows "q = p \<or> (\<exists>ps' \<in> snd ` set d. q \<in> set ps')"
proof -
  define c where "c = UserPreference.category p"
  define d' where "d' = (if c \<notin> set (map fst d) then d @ [(c, [])] else d)"
  define f where "f = (\<lambda>(k, ps). if k = c then (k, ps @ [p]) else (k, ps))"
  have "add_preference d p = map f d'"
    unfolding add_preference_def Let_def c_def d'_def f_def ..
  with assms(1) have "(k, ps) \<in> f ` set d'" by simp
  then obtain x where x: "x \<in> set d'" and kps: "(k, ps) = f x" ..
  obtain k' ps' where x_eq: "x = (k', ps')" by (cases x)
  have ps: "ps = ps' @ [p] \<or> ps = ps'"
    using kps unfolding x_eq f_def by (simp split: if_splits)
  have "x \<in> set d \<or> x = (c, [])"
    using x unfolding d'_def by (cases "c \<notin> set (map fst d)") auto
  then have "ps' = [] \<or> ps' \<in> snd ` set d"
    unfolding x_eq by force
  with ps assms(2) show ?thesis by fastforce
qed

lemma add_preference_all:
  assumes "\<forall>ps \<in> snd ` set d. \<forall>q \<in> set ps. P q" and "P p"
  shows "\<forall>ps \<in> snd ` set (add_preference d p). \<forall>q \<in> set ps. P q"
proof (intro ballI)
  fix ps q assume "ps \<in> snd ` set (add_preference d p)" and q: "q \<in> set ps"
  then obtain k where "(k, ps) \<in> set (add_preference d p)" by auto
  from add_preference_member [OF this q] show "P q" using assms by blast
qed

lemma foldl_add_preference_all:
  assumes "\<forall>ps \<in> snd ` set d. \<forall>q \<in> set ps. P q" and "\<forall>p \<in> set new. P p"
  shows "\<forall>ps \<in> snd ` set (foldl add_preference d new). \<forall>q \<in> set ps. P q"
  using assms
proof (induction new arbitrary: d)
  case Nil
  then show ?case by simp
next
  case (Cons p new)
  have "\<forall>ps \<in> snd ` set (add_preference d p). \<forall>q \<in> set ps. P q"
    using Cons.prems by (intro add_preference_all) simp_all
  moreover have "\<forall>p \<in> set new. P p"
    using Cons.prems by simp
  ultimately have
    "\<forall>ps \<in> snd ` set (foldl add_preference (add_preference d p) new). \<forall>q \<in> set ps. P q"
    by (rule Cons.IH)
  then show ?case by simp
qed

lemma parse_extraction_body_JDict:
  "parse_extraction_body now (JDict d) uid =
     (case get_iterable d ''preferences'' of
        Inl e \<Rightarrow> Inl e
      | Inr prefs \<Rightarrow>
          (case get_iterable d ''emotional_patterns'' of
             Inl e \<Rightarrow> Inl e
           | Inr pats \<Rightarrow>
               (case get_iterable d ''facts'' of
                  Inl e \<Rightarrow> Inl e
                | Inr fs \<Rightarrow>
                    Inr \<lparr>UserMemory.user_id = uid,
                         preferences = parse_preferences prefs [],
                         emotional_patterns = parse_emotional_patterns pats [],
                         facts = parse_facts fs [],
                         created_at = now,
                         updated_at = now,
                         message_count = messages_analyzed (map_of d ''messages_analyzed''),
                         analysis_version = ''1.0''\<rparr>)))"
  unfolding parse_extraction_body_def by (simp only: json.case)

lemma parse_extraction_body_not_dict:
  "\<forall>d. data \<noteq> JDict d \<Longrightarrow> parse_extraction_body now data uid = Inl AttributeError"
  unfolding parse_extraction_body_def by (cases data) (simp_all only: json.case, simp_all)

lemma parse_extraction_body_Inr:
  assumes "parse_extraction_body now data uid = Inr memory"
  obtains d prefs pats fs where "data = JDict d"
     and "get_iterable d ''preferences'' = Inr prefs"
     and "get_iterable d ''emotional_patterns'' = Inr pats"
     and "get_iterable d ''facts'' = Inr fs"
     and "memory = \<lparr>UserMemory.user_id = uid,
                         preferences = parse_preferences prefs [],
                         emotional_patterns = parse_emotional_patterns pats [],
                         facts = parse_facts fs [],
                         created_at = now,
                         updated_at = now,
                         message_count = messages_analyzed (map_of d ''messages_analyzed''),
                         analysis_version = ''1.0''\<rparr>"
proof -
  obtain d where d: "data = JDict d"
    using assms parse_extraction_body_not_dict [of data now uid] by auto
  note body = assms [unfolded d parse_extraction_body_JDict]
  obtain prefs where prefs: "get_iterable d ''preferences'' = Inr prefs"
    using body by (cases "get_iterable d ''preferences''") (simp_all only: sum.case sum.distinct)
  note body = body [unfolded prefs sum.case]
  obtain pats where pats: "get_iterable d ''emotional_patterns'' = Inr pats"
    using body by (cases "get_iterable d ''emotional_patterns''") (simp_all only: sum.case sum.distinct)
  note body = body [unfolded pats sum.case]
  obtain fs where fs: "get_iterable d ''facts'' = Inr fs"
    using body by (cases "get_iterable d ''facts''") (simp_all only: sum.case sum.distinct)
  note body = body [unfolded fs sum.case]
  from body have "memory = \<lparr>UserMemory.user_id = uid,
                         preferences = parse_preferences prefs [],
                         emotional_patterns = parse_emotional_patterns pats [],
                         facts = parse_facts fs [],
                         created_at = now,
                         updated_at = now,
                         message_count = messages_analyzed (map_of d ''messages_analyzed''),
                         analysis_version = ''1.0''\<rparr>"
    by (simp only: sum.inject)
  with d prefs pats fs show thesis by (rule that)
qed

lemma parse_extraction_result_Inr:
  "parse_extraction_result now data uid = Inr memory \<Longrightarrow>
     parse_extraction_body now data uid = Inr memory"
  by (cases "parse_extraction_body now data uid") (simp_all add: parse_extraction_result_def)


lemma map_of_dict_set:
  "map_of (dict_set d k v) k' = (if k' = k then Some v else map_of d k')"
  by (induction d) auto

lemma get_iterable_dict_set:
  "get_iterable (dict_set d k v) k' = (if k' = k then py_iter v else get_iterable d k')"
  by (simp add: get_iterable_def map_of_dict_set)

lemma parse_preferences_drop:
  "isl (new_UserPreference e) \<Longrightarrow>
     parse_preferences (xs @ e # ys) acc = parse_preferences (xs @ ys) acc"
  by (simp add: parse_preferences_valid valid_items_drop)

lemma parse_emotional_patterns_drop:
  "isl (new_EmotionalPattern e) \<Longrightarrow>
     parse_emotional_patterns (xs @ e # ys) acc = parse_emotional_patterns (xs @ ys) acc"
  by (simp add: parse_emotional_patterns_valid valid_items_drop)

lemma parse_facts_drop:
  "isl (new_UserFact e) \<Longrightarrow> parse_facts (xs @ e # ys) acc = parse_facts (xs @ ys) acc"
  by (simp add: parse_facts_valid valid_items_drop)

lemma valid_items_unit:
  assumes "\<And>e p. new e = Inr p \<Longrightarrow> P p"
  shows "\<forall>p \<in> set (valid_items new items). P p"
proof
  fix p assume "p \<in> set (valid_items new items)"
  then obtain e where "new e = Inr p" by (auto dest: valid_items_set)
  then show "P p" by (rule assms)
qed

subsection \<open>Values in the unit interval\<close>

text \<open>
  C1. In every record read from a reply, each preference and each fact has a confidence
  in \<open>[0,1]\<close> and each emotional pattern a frequency in \<open>[0,1]\<close>. An element whose
  confidence or frequency reads as a number outside \<open>[0,1]\<close> (\<open>NaN\<close> and the infinities
  included) is refused on its own: the record holds what the reply without that element
  gives.
\<close>

theorem extraction_values_in_unit_interval:
  assumes "parse_extraction_result now data uid = Inr memory"
  shows "(\<forall>ps \<in> snd ` set (preferences memory).
            \<forall>p \<in> set ps. unit_interval (UserPreference.confidence p))
       \<and> (\<forall>p \<in> set (emotional_patterns memory). unit_interval (frequency p))
       \<and> (\<forall>f \<in> set (facts memory). unit_interval (UserFact.confidence f))
       \<and> (\<forall>d xs e ys.
             data = JDict d \<and> get_iterable d ''preferences'' = Inr (xs @ e # ys)
               \<and> out_of_range ''confidence'' e
             \<longrightarrow> preferences memory = parse_preferences (xs @ ys) [])
       \<and> (\<forall>d xs e ys.
             data = JDict d \<and> get_iterable d ''emotional_patterns'' = Inr (xs @ e # ys)
               \<and> out_of_range ''frequency'' e
             \<longrightarrow> emotional_patterns memory = parse_emotional_patterns (xs @ ys) [])
       \<and> (\<forall>d xs e ys.
             data = JDict d \<and> get_iterable d ''facts'' = Inr (xs @ e # ys)
               \<and> out_of_range ''confidence'' e
             \<longrightarrow> facts memory = parse_facts (xs @ ys) [])"
proof -
  from assms have "parse_extraction_body now data uid = Inr memory"
    by (rule parse_extraction_result_Inr)
  then obtain d prefs pats fs where data: "data = JDict d"
    and prefs: "get_iterable d ''preferences'' = Inr prefs"
    and pats: "get_iterable d ''emotional_patterns'' = Inr pats"
    and fs: "get_iterable d ''facts'' = Inr fs"
    and memory: "memory = \<lparr>UserMemory.user_id = uid,
                         preferences = parse_preferences prefs [],
                         emotional_patterns = parse_emotional_patterns pats [],
                         facts = parse_facts fs [],
                         created_at = now,
                         updated_at = now,
                         message_count = messages_analyzed (map_of d ''messages_analyzed''),
                         analysis_version = ''1.0''\<rparr>"
    by (rule parse_extraction_body_Inr)
  have m_prefs: "preferences memory = parse_preferences prefs []"
    and m_pats: "emotional_patterns memory = parse_emotional_patterns pats []"
    and m_fs: "facts memory = parse_facts fs []"
    unfolding memory by simp_all
  have "\<forall>p \<in> set (valid_items new_UserPreference prefs).
          unit_interval (UserPreference.confidence p)"
    by (rule valid_items_unit) (rule new_UserPreference_unit)
  then have c1: "\<forall>ps \<in> snd ` set (preferences memory).
            \<forall>p \<in> set ps. unit_interval (UserPreference.confidence p)"
    unfolding m_prefs parse_preferences_valid
    by (intro foldl_add_preference_all) simp_all
  have c2: "\<forall>p \<in> set (emotional_patterns memory). unit_interval (frequency p)"
    unfolding m_pats parse_emotional_patterns_valid append_Nil
    by (rule valid_items_unit) (rule new_EmotionalPattern_unit)
  have c3: "\<forall>f \<in> set (facts memory). unit_interval (UserFact.confidence f)"
    unfolding m_fs parse_facts_valid append_Nil
    by (rule valid_items_unit) (rule new_UserFact_unit)
  have c4: "preferences memory = parse_preferences (xs @ ys) []"
    if "data = JDict d'" "get_iterable d' ''preferences'' = Inr (xs @ e # ys)"
       "out_of_range ''confidence'' e" for d' xs e ys
  proof -
    from that data prefs have "prefs = xs @ e # ys" by simp
    moreover have "isl (new_UserPreference e)"
      using that(3) by (simp add: new_UserPreference_out_of_range)
    ultimately show ?thesis by (simp add: m_prefs parse_preferences_drop)
  qed
  have c5: "emotional_patterns memory = parse_emotional_patterns (xs @ ys) []"
    if "data = JDict d'" "get_iterable d' ''emotional_patterns'' = Inr (xs @ e # ys)"
       "out_of_range ''frequency'' e" for d' xs e ys
  proof -
    from that data pats have "pats = xs @ e # ys" by simp
    moreover have "isl (new_EmotionalPattern e)"
      using that(3) by (simp add: new_EmotionalPattern_out_of_range)
    ultimately show ?thesis by (simp add: m_pats parse_emotional_patterns_drop)
  qed
  have c6: "facts memory = parse_facts (xs @ ys) []"
    if "data = JDict d'" "get_iterable d' ''facts'' = Inr (xs @ e # ys)"
       "out_of_range ''confidence'' e" for d' xs e ys
  proof -
    from that data fs have "fs = xs @ e # ys" by simp
    moreover have "isl (new_UserFact e)"
      using that(3) by (simp add: new_UserFact_out_of_range)
    ultimately show ?thesis by (simp add: m_fs parse_facts_drop)
  qed
  from c4 have c4': "\<forall>d xs e ys.
             data = JDict d \<and> get_iterable d ''preferences'' = Inr (xs @ e # ys)
               \<and> out_of_range ''confidence'' e
             \<longrightarrow> preferences memory = parse_preferences (xs @ ys) []"
    by blast
  from c5 have c5': "\<forall>d xs e ys.
             data = JDict d \<and> get_iterable d ''emotional_patterns'' = Inr (xs @ e # ys)
               \<and> out_of_range ''frequency'' e
             \<longrightarrow> emotional_patterns memory = parse_emotional_patterns (xs @ ys) []"
    by blast
  from c6 have c6': "\<forall>d xs e ys.
             data = JDict d \<and> get_iterable d ''facts'' = Inr (xs @ e # ys)
               \<and> out_of_range ''confidence'' e
             \<longrightarrow> facts memory = parse_facts (xs @ ys) []"
    by blast
  show ?thesis
    by (intro conjI) (rule c1 c2 c3 c4' c5' c6')+
qed

theorem extraction_values_in_unit_interval_witness:
  "parse_extraction_result 0 (JDict sample_reply) None = Inr sample_memory
   \<and> list_all (\<lambda>ps. list_all (\<lambda>p. unit_interval (UserPreference.confidence p)) ps)
        (map snd (preferences sample_memory))
   \<and> list_all (\<lambda>p. unit_interval (frequency p)) (emotional_patterns sample_memory)
   \<and> list_all (\<lambda>f. unit_interval (UserFact.confidence f)) (facts sample_memory)
   \<and> out_of_range ''confidence'' overrated_preference
   \<and> preferences sample_memory = parse_preferences [coffee_preference] []
   \<and> out_of_range ''frequency'' negative_pattern
   \<and> emotional_patterns sample_memory
       = parse_emotional_patterns [deadline_pattern, extreme_pattern] []
   \<and> out_of_range ''confidence'' overrated_fact
   \<and> facts sample_memory = parse_facts [location_fact] []"
proof -
  have parsed: "parse_extraction_result 0 (JDict sample_reply) None = Inr sample_memory"
    by code_simp
  have prefs: "get_iterable sample_reply ''preferences''
                 = Inr ([coffee_preference] @ overrated_preference # [])"
    and pats: "get_iterable sample_reply ''emotional_patterns''
                 = Inr ([deadline_pattern, extreme_pattern] @ negative_pattern # [])"
    and fs: "get_iterable sample_reply ''facts'' = Inr ([] @ overrated_fact # [location_fact])"
    by (simp_all add: get_iterable_def sample_reply_def)
  have out: "out_of_range ''confidence'' overrated_preference"
    "out_of_range ''frequency'' negative_pattern"
    "out_of_range ''confidence'' overrated_fact"
    by code_simp+
  note claim = extraction_values_in_unit_interval [OF parsed]
  note c1 = claim [THEN conjunct1]
  note c2 = claim [THEN conjunct2, THEN conjunct1]
  note c3 = claim [THEN conjunct2, THEN conjunct2, THEN conjunct1]
  note c4 = claim [THEN conjunct2, THEN conjunct2, THEN conjunct2, THEN conjunct1, rule_format]
  note c5 = claim [THEN conjunct2, THEN conjunct2, THEN conjunct2, THEN conjunct2,
      THEN conjunct1, rule_format]
  note c6 = claim [THEN conjunct2, THEN conjunct2, THEN conjunct2, THEN conjunct2,
      THEN conjunct2, rule_format]
  have "preferences sample_memory = parse_preferences ([coffee_preference] @ []) []"
    by (rule c4 [of sample_reply _ overrated_preference]) (simp add: prefs out)
  then have p: "preferences sample_memory = parse_preferences [coffee_preference] []"
    by simp
  have "emotional_patterns sample_memory
          = parse_emotional_patterns ([deadline_pattern, extreme_pattern] @ []) []"
    by (rule c5 [of sample_reply _ negative_pattern]) (simp add: pats out)
  then have q: "emotional_patterns sample_memory
          = parse_emotional_patterns [deadline_pattern, extreme_pattern] []"
    by simp
  have "facts sample_memory = parse_facts ([] @ [location_fact]) []"
    by (rule c6 [of sample_reply _ overrated_fact]) (simp add: fs out)
  then have r: "facts sample_memory = parse_facts [location_fact] []"
    by simp
  have c1': "list_all (\<lambda>ps. list_all (\<lambda>p. unit_interval (UserPreference.confidence p)) ps)
        (map snd (preferences sample_memory))"
    using c1 by (simp add: list_all_iff)
  have c2': "list_all (\<lambda>p. unit_interval (frequency p)) (emotional_patterns sample_memory)"
    using c2 by (simp add: list_all_iff)
  have c3': "list_all (\<lambda>f. unit_interval (UserFact.confidence f)) (facts sample_memory)"
    using c3 by (simp add: list_all_iff)
  show ?thesis
    by (intro conjI parsed c1' c2' c3' out p q r)
qed

subsection \<open>An intensity outside the three levels\<close>

text \<open>
  C2. An element of \<open>emotional_patterns\<close> whose intensity is absent or is not one of the
  strings \<open>low\<close>, \<open>medium\<close>, \<open>high\<close> is refused, and nothing else changes: the reply gives
  what the reply without the element gives, it fails only when the preferences or the
  facts cannot be iterated, and the record's patterns are the accepted ones among the
  other elements, in order.
\<close>

theorem invalid_intensity_drops_the_element_only:
  assumes "get_iterable d ''emotional_patterns'' = Inr (xs @ e # ys)"
    and "intensity_of e \<notin> {Some (JStr ''low''), Some (JStr ''medium''), Some (JStr ''high'')}"
  shows "isl (new_EmotionalPattern e)
       \<and> parse_extraction_result now (JDict d) uid
           = parse_extraction_result now
               (JDict (dict_set d ''emotional_patterns'' (JList (xs @ ys)))) uid
       \<and> (isl (parse_extraction_result now (JDict d) uid)
            \<longleftrightarrow> isl (get_iterable d ''preferences'') \<or> isl (get_iterable d ''facts''))
       \<and> (\<forall>memory. parse_extraction_result now (JDict d) uid = Inr memory
            \<longrightarrow> emotional_patterns memory = valid_items new_EmotionalPattern (xs @ ys))"
proof -
  have bad: "isl (new_EmotionalPattern e)"
    using assms(2) by (rule new_EmotionalPattern_intensity)
  have drop: "parse_emotional_patterns (xs @ e # ys) [] = parse_emotional_patterns (xs @ ys) []"
    using bad by (rule parse_emotional_patterns_drop)
  let ?d' = "dict_set d ''emotional_patterns'' (JList (xs @ ys))"
  have g_prefs: "get_iterable ?d' ''preferences'' = get_iterable d ''preferences''"
    and g_pats: "get_iterable ?d' ''emotional_patterns'' = Inr (xs @ ys)"
    and g_facts: "get_iterable ?d' ''facts'' = get_iterable d ''facts''"
    by (simp_all add: get_iterable_dict_set)
  have g_count: "map_of ?d' ''messages_analyzed'' = map_of d ''messages_analyzed''"
    by (simp add: map_of_dict_set)
  have same: "parse_extraction_body now (JDict d) uid = parse_extraction_body now (JDict ?d') uid"
    unfolding parse_extraction_body_JDict g_prefs g_pats g_facts g_count assms(1) sum.case drop ..
  then have c2: "parse_extraction_result now (JDict d) uid
                   = parse_extraction_result now (JDict ?d') uid"
    by (simp add: parse_extraction_result_def)
  have c3: "isl (parse_extraction_result now (JDict d) uid)
            \<longleftrightarrow> isl (get_iterable d ''preferences'') \<or> isl (get_iterable d ''facts'')"
    unfolding parse_extraction_result_def parse_extraction_body_JDict
    by (simp add: assms(1) split: sum.splits)
  have c4: "emotional_patterns memory = valid_items new_EmotionalPattern (xs @ ys)"
    if "parse_extraction_result now (JDict d) uid = Inr memory" for memory
  proof -
    from that have "parse_extraction_body now (JDict d) uid = Inr memory"
      by (rule parse_extraction_result_Inr)
    then obtain d' pats where "JDict d = JDict d'"
      and "get_iterable d' ''emotional_patterns'' = Inr pats"
      and "emotional_patterns memory = parse_emotional_patterns pats []"
      by (rule parse_extraction_body_Inr) simp
    with assms(1) have "emotional_patterns memory = parse_emotional_patterns (xs @ e # ys) []"
      by simp
    then show ?thesis
      by (simp add: parse_emotional_patterns_valid valid_items_drop [of new_EmotionalPattern e, OF bad])
  qed
  from bad c2 c3 c4 show ?thesis by blast
qed

theorem invalid_intensity_drops_the_element_only_witness:
  "get_iterable sample_reply ''emotional_patterns''
     = Inr ([deadline_pattern] @ extreme_pattern # [negative_pattern])
   \<and> intensity_of extreme_pattern = Some (JStr ''extreme'')
   \<and> isl (new_EmotionalPattern extreme_pattern)
   \<and> parse_extraction_result 0 (JDict sample_reply) None = Inr sample_memory
   \<and> parse_extraction_result 0
        (JDict (dict_set sample_reply ''emotional_patterns''
                  (JList [deadline_pattern, negative_pattern]))) None = Inr sample_memory
   \<and> emotional_patterns sample_memory
       = valid_items new_EmotionalPattern [deadline_pattern, negative_pattern]"
proof -
  have pats: "get_iterable sample_reply ''emotional_patterns''
                = Inr ([deadline_pattern] @ extreme_pattern # [negative_pattern])"
    by (simp add: get_iterable_def sample_reply_def)
  have intensity: "intensity_of extreme_pattern = Some (JStr ''extreme'')"
    by (simp add: intensity_of_def extreme_pattern_def)
  then have bad: "intensity_of extreme_pattern
                 \<notin> {Some (JStr ''low''), Some (JStr ''medium''), Some (JStr ''high'')}"
    by simp
  have parsed: "parse_extraction_result 0 (JDict sample_reply) None = Inr sample_memory"
    by code_simp
  note claim = invalid_intensity_drops_the_element_only [OF pats bad, of 0 None]
  from claim parsed show ?thesis using pats intensity by simp
qed

subsection \<open>The message count\<close>

text \<open>
  C4. The record that \<open>extract_memory\<close> returns counts the caller's messages, whatever
  the reply said. Before that the reply's \<open>messages_analyzed\<close> is read as it stands when
  it is an integer, as its length when it is a list, and as 0 when it is absent,
  \<open>null\<close>, a string, a float or an object. A JSON boolean is an \<open>int\<close> for Python's
  \<open>isinstance\<close>: \<open>true\<close> is read as 1 and \<open>false\<close> as 0. These are all the values a reply
  can hold.
\<close>

theorem caller_message_count_wins:
  "(extract_memory loads self now later request calls = (Inr memory, calls')
      \<longrightarrow> message_count memory = int (length (messages request)))
   \<and> message_count (enhance_memory_with_stats later m msgs) = int (length msgs)
   \<and> (parse_extraction_result now (JDict d) uid = Inr m'
      \<longrightarrow> message_count m' = messages_analyzed (map_of d ''messages_analyzed''))
   \<and> messages_analyzed (Some (JInt n)) = n
   \<and> messages_analyzed (Some (JList xs)) = int (length xs)
   \<and> messages_analyzed (Some (JBool b)) = (if b then 1 else 0)
   \<and> messages_analyzed None = 0
   \<and> messages_analyzed (Some JNull) = 0
   \<and> messages_analyzed (Some (JStr s)) = 0
   \<and> messages_analyzed (Some (JFloat f)) = 0
   \<and> messages_analyzed (Some (JDict kvs)) = 0"
proof -
  have c1: "message_count memory = int (length (messages request))"
    if "extract_memory loads self now later request calls = (Inr memory, calls')"
  proof -
    obtain r calls1 where llm:
      "extract_with_llm loads self (format_messages (messages request)) calls = (r, calls1)"
      by (cases "extract_with_llm loads self (format_messages (messages request)) calls")
    show ?thesis
    proof (cases r)
      case (Inl e)
      with that llm show ?thesis by (simp add: extract_memory_def)
    next
      case (Inr data)
      show ?thesis
      proof (cases "parse_extraction_result now data (MemoryExtractionRequest.user_id request)")
        case (Inl e)
        with that llm Inr show ?thesis by (simp add: extract_memory_def)
      next
        case parsed: (Inr m0)
        with that llm Inr
        have "memory = enhance_memory_with_stats later m0 (messages request)"
          by (simp add: extract_memory_def)
        then show ?thesis by (simp add: enhance_memory_with_stats_def)
      qed
    qed
  qed
  have c3: "message_count m' = messages_analyzed (map_of d ''messages_analyzed'')"
    if "parse_extraction_result now (JDict d) uid = Inr m'"
  proof -
    from that have "parse_extraction_body now (JDict d) uid = Inr m'"
      by (rule parse_extraction_result_Inr)
    then obtain d' where "JDict d = JDict d'"
      and "message_count m' = messages_analyzed (map_of d' ''messages_analyzed'')"
      by (rule parse_extraction_body_Inr) simp
    then show ?thesis by simp
  qed
  from c1 c3 show ?thesis
    by (simp add: enhance_memory_with_stats_def messages_analyzed_def)
qed

theorem caller_message_count_wins_witness:
  "extract_memory json_loads (sample_extractor counted_reply) 0 1 sample_request []
     = (Inr ((empty_memory 0 (Some ''test_user_123''))\<lparr>message_count := 2, updated_at := 1\<rparr>),
        snd (extract_memory json_loads (sample_extractor counted_reply) 0 1 sample_request []))
   \<and> message_count ((empty_memory 0 (Some ''test_user_123''))\<lparr>message_count := 2, updated_at := 1\<rparr>)
       = int (length (messages sample_request))
   \<and> parse_extraction_result 0
        (JDict [(''preferences'', JList []), (''messages_analyzed'', JInt 7)]) None
       = Inr ((empty_memory 0 None)\<lparr>message_count := 7\<rparr>)
   \<and> message_count ((empty_memory 0 None)\<lparr>message_count := 7\<rparr>)
       = messages_analyzed (Some (JInt 7))"
proof -
  let ?run = "extract_memory json_loads (sample_extractor counted_reply) 0 1 sample_request []"
  let ?m = "(empty_memory 0 (Some ''test_user_123''))\<lparr>message_count := 2, updated_at := 1\<rparr>"
  have "fst ?run = Inr ?m"
    by code_simp
  then have run: "?run = (Inr ?m, snd ?run)"
    by (simp add: prod_eq_iff)
  have parsed: "parse_extraction_result 0
        (JDict [(''preferences'', JList []), (''messages_analyzed'', JInt 7)]) None
       = Inr ((empty_memory 0 None)\<lparr>message_count := 7\<rparr>)"
    by code_simp
  note claim = caller_message_count_wins
    [of json_loads "sample_extractor counted_reply" 0 1 sample_request "[]" ?m "snd ?run"
        _ _ "[(''preferences'', JList []), (''messages_analyzed'', JInt 7)]" None
        "(empty_memory 0 None)\<lparr>message_count := 7\<rparr>"]
  have a: "message_count ?m = int (length (messages sample_request))"
    using claim [THEN conjunct1] run by (rule mp)
  have b: "message_count ((empty_memory 0 None)\<lparr>message_count := 7\<rparr>)
       = messages_analyzed (map_of [(''preferences'', JList []), (''messages_analyzed'', JInt 7)]
           ''messages_analyzed'')"
    using claim [THEN conjunct2, THEN conjunct2, THEN conjunct1] parsed by (rule mp)
  then have b': "message_count ((empty_memory 0 None)\<lparr>message_count := 7\<rparr>)
       = messages_analyzed (Some (JInt 7))"
    by simp
  show ?thesis
    by (intro conjI run a parsed b')
qed

text \<open>
  C4, as the specification words it, reads every value that is neither an integer nor a
  list as 0. The reply \<open>{"messages_analyzed": true}\<close> is read as 1; the record returned for
  two messages still counts 2.
\<close>

theorem boolean_messages_analyzed_counterexample:
  "json_loads boolean_count_reply = Some (JDict [(''messages_analyzed'', JBool True)])
   \<and> messages_analyzed (Some (JBool True)) \<noteq> 0
   \<and> parse_extraction_result 0 (JDict [(''messages_analyzed'', JBool True)]) None
       = Inr ((empty_memory 0 None)\<lparr>message_count := 1\<rparr>)
   \<and> fst (extract_memory json_loads (sample_extractor boolean_count_reply) 0 1
             sample_request [])
       = Inr ((empty_memory 0 (Some ''test_user_123''))\<lparr>message_count := 2, updated_at := 1\<rparr>)"
  by code_simp


subsection \<open>Cleaning and decoding the reply\<close>

lemma strip_where_wrapped:
  assumes "body \<noteq> []" and "\<not> p (hd body)" and "\<not> p (last body)"
    and "\<forall>c \<in> set pre. p c" and "\<forall>c \<in> set post. p c"
  shows "strip_where p (pre @ body @ post) = body"
proof -
  from assms(1) obtain b bs where body: "body = b # bs" by (cases body) auto
  with assms(2) have "\<not> p b" by simp
  then have front: "dropWhile p (pre @ body @ post) = body @ post"
    using assms(4) by (simp add: dropWhile_append2 body)
  from assms(1) have "rev body \<noteq> []" by simp
  then obtain l ls where rbody: "rev body = l # ls" by (cases "rev body") auto
  have "l = last body" using rbody assms(1) by (metis hd_rev list.sel(1))
  with assms(3) have "\<not> p l" by simp
  then have "dropWhile p (rev body) = rev body"
    by (simp add: rbody)
  moreover have "dropWhile p (rev post @ rev body) = dropWhile p (rev body)"
    by (rule dropWhile_append2) (use assms(5) in simp)
  ultimately have "dropWhile p (rev post @ rev body) = rev body"
    by simp
  then show ?thesis
    by (simp add: strip_where_def front)
qed

lemma strip_where_unchanged:
  assumes "body \<noteq> []" and "\<not> p (hd body)" and "\<not> p (last body)"
  shows "strip_where p body = body"
  using strip_where_wrapped [OF assms, of "[]" "[]"] by simp

lemma cleaned_response_fenced:
  assumes "body \<noteq> []" and "\<not> py_isspace (hd body)" and "\<not> py_isspace (last body)"
  shows "cleaned_response (''```json'' @ ''\<newline>'' @ body @ ''\<newline>'' @ ''```'') = body"
proof -
  let ?inner = "''\<newline>'' @ body @ ''\<newline>''"
  let ?raw = "''```json'' @ ?inner @ ''```''"
  have s1: "py_strip ?raw = ?raw"
    unfolding py_strip_def
    by (rule strip_where_unchanged) (simp_all add: py_isspace_def)
  have s2: "py_strip_chars ''```json'' ?raw = ?inner"
    unfolding py_strip_chars_def
    by (rule strip_where_wrapped) simp_all
  have s3: "py_strip_chars ''```'' ?inner = ?inner"
    unfolding py_strip_chars_def
    by (rule strip_where_unchanged) simp_all
  have s4: "py_strip ?inner = body"
    unfolding py_strip_def
    using assms by (intro strip_where_wrapped) (simp_all add: py_isspace_def)
  show ?thesis
    unfolding cleaned_response_def
    using s1 s2 s3 s4 by (simp only: append_assoc)
qed

lemma cleaned_fenced_empty:
  \<open>cleaned_response fenced_empty_reply
     = ''{"preferences": [], "emotional_patterns": [], "facts": []}''\<close>
  by code_simp

lemma cleaned_not_json: "cleaned_response ''not json'' = ''t''"
  by code_simp

lemma loads_fenced_empty:
  "parse_json_response json_loads fenced_empty_reply
     = Inr (JDict [(''preferences'', JList []), (''emotional_patterns'', JList []),
                   (''facts'', JList [])])"
  by code_simp

lemma loads_not_json:
  "parse_json_response json_loads ''not json''
     = Inl (MemoryExtractionError ''Invalid JSON response from LLM'' JSONDecodeError)"
  by code_simp

lemma parse_empty:
  "parse_extraction_result now
     (JDict [(''preferences'', JList []), (''emotional_patterns'', JList []),
             (''facts'', JList [])]) uid = Inr (empty_memory now uid)"
  by (simp add: parse_extraction_result_def parse_extraction_body_def get_iterable_def
        messages_analyzed_def empty_memory_def)


text \<open>
  C3. The reply is cleaned by four trimmings in a row: whitespace, the characters of
  \<open>```json\<close>, the backquote, whitespace again (each trims a set of characters at both
  ends, which takes a fence and its line breaks off a reply that is wrapped in one). The
  cleaned text goes to the decoder, and the reading fails with the invalid-JSON error
  exactly when the decoder refuses that text; otherwise it returns the decoded value.
  The fenced reply without elements gives the empty record, also through
  \<open>extract_memory\<close>, where it gets the caller's count; the reply \<open>not json\<close> is cleaned to
  \<open>t\<close> and fails with the invalid-JSON error, which \<open>extract_memory\<close> wraps.
\<close>

theorem invalid_json_exactly_when_unparsable:
  \<open>(parse_json_response loads raw
       = Inl (MemoryExtractionError ''Invalid JSON response from LLM'' JSONDecodeError)
      \<longleftrightarrow> loads (cleaned_response raw) = None)
   \<and> (parse_json_response loads raw = Inr data
      \<longleftrightarrow> loads (cleaned_response raw) = Some data)
   \<and> (body \<noteq> [] \<and> \<not> py_isspace (hd body) \<and> \<not> py_isspace (last body)
      \<longrightarrow> cleaned_response (''```json'' @ ''\<newline>'' @ body @ ''\<newline>'' @ ''```'') = body)
   \<and> cleaned_response fenced_empty_reply
       = ''{"preferences": [], "emotional_patterns": [], "facts": []}''
   \<and> parse_json_response json_loads fenced_empty_reply
       = Inr (JDict [(''preferences'', JList []), (''emotional_patterns'', JList []),
                     (''facts'', JList [])])
   \<and> parse_extraction_result now
        (JDict [(''preferences'', JList []), (''emotional_patterns'', JList []),
                (''facts'', JList [])]) uid
       = Inr (empty_memory now uid)
   \<and> ((\<forall>call. MemoryExtractor.llm_client self calls call = Inr fenced_empty_reply)
      \<longrightarrow> fst (extract_memory json_loads self now later request calls)
          = Inr ((empty_memory now (MemoryExtractionRequest.user_id request))
                   \<lparr>message_count := int (length (messages request)), updated_at := later\<rparr>))
   \<and> cleaned_response ''not json'' = ''t''
   \<and> parse_json_response json_loads ''not json''
       = Inl (MemoryExtractionError ''Invalid JSON response from LLM'' JSONDecodeError)
   \<and> ((\<forall>call. MemoryExtractor.llm_client self calls call = Inr ''not json'')
      \<longrightarrow> fst (extract_memory json_loads self now later request calls)
          = Inl (MemoryExtractionError ''Failed to extract memory''
                  (MemoryExtractionError ''Invalid JSON response from LLM'' JSONDecodeError)))\<close>
proof -
  have c1: "parse_json_response loads raw
       = Inl (MemoryExtractionError ''Invalid JSON response from LLM'' JSONDecodeError)
      \<longleftrightarrow> loads (cleaned_response raw) = None"
    by (simp add: parse_json_response_def split: option.splits)
  have c2: "parse_json_response loads raw = Inr data
      \<longleftrightarrow> loads (cleaned_response raw) = Some data"
    by (simp add: parse_json_response_def split: option.splits)
  have c3: "body \<noteq> [] \<and> \<not> py_isspace (hd body) \<and> \<not> py_isspace (last body)
      \<longrightarrow> cleaned_response (''```json'' @ ''\<newline>'' @ body @ ''\<newline>'' @ ''```'') = body"
    using cleaned_response_fenced [of body] by blast
  have c7: "fst (extract_memory json_loads self now later request calls)
          = Inr ((empty_memory now (MemoryExtractionRequest.user_id request))
                   \<lparr>message_count := int (length (messages request)), updated_at := later\<rparr>)"
    if "\<forall>call. MemoryExtractor.llm_client self calls call = Inr fenced_empty_reply"
    using that
    by (simp add: extract_memory_def extract_with_llm_def Let_def loads_fenced_empty
          parse_empty enhance_memory_with_stats_def)
  have c10: "fst (extract_memory json_loads self now later request calls)
          = Inl (MemoryExtractionError ''Failed to extract memory''
                  (MemoryExtractionError ''Invalid JSON response from LLM'' JSONDecodeError))"
    if "\<forall>call. MemoryExtractor.llm_client self calls call = Inr ''not json''"
    using that
    by (simp add: extract_memory_def extract_with_llm_def Let_def loads_not_json)
  from c7 have c7': "(\<forall>call. MemoryExtractor.llm_client self calls call = Inr fenced_empty_reply)
      \<longrightarrow> fst (extract_memory json_loads self now later request calls)
          = Inr ((empty_memory now (MemoryExtractionRequest.user_id request))
                   \<lparr>message_count := int (length (messages request)), updated_at := later\<rparr>)"
    by (rule impI)
  from c10 have c10': "(\<forall>call. MemoryExtractor.llm_client self calls call = Inr ''not json'')
      \<longrightarrow> fst (extract_memory json_loads self now later request calls)
          = Inl (MemoryExtractionError ''Failed to extract memory''
                  (MemoryExtractionError ''Invalid JSON response from LLM'' JSONDecodeError))"
    by (rule impI)
  show ?thesis
    by (intro conjI c1 c2 c3 cleaned_fenced_empty loads_fenced_empty parse_empty c7'
          cleaned_not_json loads_not_json c10')
qed


theorem invalid_json_exactly_when_unparsable_witness:
  "cleaned_response (''```json'' @ ''\<newline>'' @ ''{}'' @ ''\<newline>'' @ ''```'') = ''{}''
   \<and> fst (extract_memory json_loads (sample_extractor fenced_empty_reply) 0 1 sample_request [])
       = Inr ((empty_memory 0 (MemoryExtractionRequest.user_id sample_request))
                \<lparr>message_count := int (length (messages sample_request)), updated_at := 1\<rparr>)
   \<and> fst (extract_memory json_loads (sample_extractor ''not json'') 0 1 sample_request [])
       = Inl (MemoryExtractionError ''Failed to extract memory''
               (MemoryExtractionError ''Invalid JSON response from LLM'' JSONDecodeError))
   \<and> json_loads (cleaned_response ''not json'') = None"
proof -
  note fenced = invalid_json_exactly_when_unparsable
    [where body = "''{}''" and self = "sample_extractor fenced_empty_reply" and calls = "[]"
       and now = 0 and later = 1 and request = sample_request
       and loads = json_loads and raw = "''not json''"]
  note plain = invalid_json_exactly_when_unparsable
    [where self = "sample_extractor ''not json''" and calls = "[]"
       and now = 0 and later = 1 and request = sample_request]
  have body: "''{}'' \<noteq> [] \<and> \<not> py_isspace (hd ''{}'') \<and> \<not> py_isspace (last ''{}'')"
    by (simp add: py_isspace_def)
  have a: "cleaned_response (''```json'' @ ''\<newline>'' @ ''{}'' @ ''\<newline>'' @ ''```'') = ''{}''"
    using fenced [THEN conjunct2, THEN conjunct2, THEN conjunct1] body by (rule mp)
  have "\<forall>call. MemoryExtractor.llm_client (sample_extractor fenced_empty_reply) [] call = Inr fenced_empty_reply"
    by (simp add: sample_extractor_def answering_def)
  with fenced [THEN conjunct2, THEN conjunct2, THEN conjunct2, THEN conjunct2, THEN conjunct2,
      THEN conjunct2, THEN conjunct1]
  have b: "fst (extract_memory json_loads (sample_extractor fenced_empty_reply) 0 1 sample_request [])
       = Inr ((empty_memory 0 (MemoryExtractionRequest.user_id sample_request))
                \<lparr>message_count := int (length (messages sample_request)), updated_at := 1\<rparr>)"
    by (rule mp)
  have "\<forall>call. MemoryExtractor.llm_client (sample_extractor ''not json'') [] call = Inr ''not json''"
    by (simp add: sample_extractor_def answering_def)
  with plain [THEN conjunct2, THEN conjunct2, THEN conjunct2, THEN conjunct2, THEN conjunct2,
      THEN conjunct2, THEN conjunct2, THEN conjunct2, THEN conjunct2]
  have c: "fst (extract_memory json_loads (sample_extractor ''not json'') 0 1 sample_request [])
       = Inl (MemoryExtractionError ''Failed to extract memory''
               (MemoryExtractionError ''Invalid JSON response from LLM'' JSONDecodeError))"
    by (rule mp)
  have d: "json_loads (cleaned_response ''not json'') = None"
    using fenced [THEN conjunct1]
      fenced [THEN conjunct2, THEN conjunct2, THEN conjunct2, THEN conjunct2, THEN conjunct2,
        THEN conjunct2, THEN conjunct2, THEN conjunct2, THEN conjunct1]
    by (rule iffD1)
  show ?thesis
    by (intro conjI a b c d)
qed


subsection \<open>The transcript\<close>

lemma format_messages_loop_lines:
  "format_messages_loop i msgs formatted = formatted @ transcript_lines i msgs"
proof (induction msgs arbitrary: i formatted)
  case Nil
  show ?case by (simp add: transcript_lines_def)
next
  case (Cons msg rest)
  have split: "[i ..< i + length (msg # rest)] = i # [Suc i ..< Suc i + length rest]"
    by (simp add: upt_rec)
  show ?case
    unfolding format_messages_loop.simps Let_def Cons.IH
    by (simp only: transcript_lines_def split) simp
qed

text \<open>
  C9, as the code has it. The user prompt of the extraction call holds the transcript
  between its two fixed sentences, and the transcript is the entries
  \<open>"[index] ROLE: content"\<close>, joined by line feeds, of the messages whose content is not
  empty once trimmed of surrounding whitespace: the index is the message's position in
  the supplied list counted from one, the role is in upper case (\<open>UNKNOWN\<close> when the message
  has none), the content is the trimmed one, and the order is the order of the list.
\<close>

theorem format_messages_transcript:
  "format_messages msgs = py_join ''\<newline>'' (transcript_lines 1 msgs)
   \<and> map user_prompt
        (drop (length calls) (snd (extract_with_llm loads self (format_messages msgs) calls)))
       = [extraction_user_prompt (py_join ''\<newline>'' (transcript_lines 1 msgs))]
   \<and> sublist (py_join ''\<newline>'' (transcript_lines 1 msgs))
        (extraction_user_prompt (py_join ''\<newline>'' (transcript_lines 1 msgs)))"
proof -
  have a: "format_messages msgs = py_join ''\<newline>'' (transcript_lines 1 msgs)"
    by (simp add: format_messages_def format_messages_loop_lines)
  have b: "map user_prompt
        (drop (length calls) (snd (extract_with_llm loads self (format_messages msgs) calls)))
       = [extraction_user_prompt (py_join ''\<newline>'' (transcript_lines 1 msgs))]"
    unfolding a by (simp add: extract_with_llm_def Let_def split: sum.splits)
  have c: "sublist t (extraction_user_prompt t)" for t
    unfolding extraction_user_prompt_def by (rule sublist_appendI)
  show ?thesis
    by (intro conjI a b c)
qed

text \<open>
  C9, as the specification words it, fails on a message whose content has whitespace
  around it: the entry carries the trimmed content; and on a message of blanks only,
  which has no entry at all.
\<close>

theorem format_messages_untrimmed_counterexample:
  "format_messages [[(''role'', ''user''), (''content'', '' hi '')]]
     \<noteq> py_join ''\<newline>''
         (spec_transcript_lines [[(''role'', ''user''), (''content'', '' hi '')]])
   \<and> format_messages [[(''role'', ''user''), (''content'', '' hi '')]] = ''[1] USER: hi''
   \<and> py_join ''\<newline>''
        (spec_transcript_lines [[(''role'', ''user''), (''content'', '' hi '')]])
      = ''[1] USER:  hi ''
   \<and> format_messages [[(''role'', ''user''), (''content'', '' '')]]
     \<noteq> py_join ''\<newline>'' (spec_transcript_lines [[(''role'', ''user''), (''content'', '' '')]])
   \<and> format_messages [[(''role'', ''user''), (''content'', '' '')]] = ''''
   \<and> py_join ''\<newline>'' (spec_transcript_lines [[(''role'', ''user''), (''content'', '' '')]])
      = ''[1] USER:  ''"
  by code_simp

subsection \<open>Zero as a sampling parameter\<close>

text \<open>
  C10. Every call of the client's \<open>generate_response\<close> posts one body, the dictionary
  \<open>payload\<close>. Called with the temperature 0, the body it posts carries the client's
  default temperature; called with 0 for \<open>max_tokens\<close>, the client's default for that:
  \<open>or\<close> takes 0 for false, so the call posts and returns what the call with no value
  does. The defaults are 0.7 and 1000 for every client its constructor builds. Such a
  client never posts a body with the temperature 0; an endpoint that answers only a body
  carrying 0.7 and 1000 answers its call with two zeros, and refuses its call with another
  temperature.
\<close>

theorem zero_sampling_parameters_fall_back:
  "snd (LLMClient_generate_response self endpoint posted sp up temp tokens mn)
     = posted @ [request_payload self sp up temp tokens mn]
   \<and> map (\<lambda>body. map_of body ''temperature'')
        (drop (length posted)
           (snd (LLMClient_generate_response self endpoint posted sp up (Some 0) tokens mn)))
     = [Some (JFloat (Finite (default_temperature self)))]
   \<and> map (\<lambda>body. map_of body ''max_tokens'')
        (drop (length posted)
           (snd (LLMClient_generate_response self endpoint posted sp up temp (Some 0) mn)))
     = [Some (JInt (default_max_tokens self))]
   \<and> LLMClient_generate_response self endpoint posted sp up (Some 0) tokens mn
     = LLMClient_generate_response self endpoint posted sp up None tokens mn
   \<and> LLMClient_generate_response self endpoint posted sp up temp (Some 0) mn
     = LLMClient_generate_response self endpoint posted sp up temp None mn
   \<and> (new_LLMClient env key url = Inr self
      \<longrightarrow> map (\<lambda>body. map_of body ''temperature'')
            (drop (length posted)
               (snd (LLMClient_generate_response self endpoint posted sp up (Some 0) tokens mn)))
            = [Some (JFloat (Finite (7 / 10)))]
        \<and> map (\<lambda>body. map_of body ''max_tokens'')
            (drop (length posted)
               (snd (LLMClient_generate_response self endpoint posted sp up temp (Some 0) mn)))
            = [Some (JInt 1000)]
        \<and> map (\<lambda>body. map_of body ''temperature'')
            (drop (length posted)
               (snd (LLMClient_generate_response self endpoint posted sp up temp tokens mn)))
            \<noteq> [Some (JFloat (Finite 0))]
        \<and> LLMClient_generate_response self (defaults_only said) posted sp up (Some 0) (Some 0) mn
            = (Inr (py_strip said), posted @ [request_payload self sp up None None mn])
        \<and> (t \<noteq> 0 \<and> t \<noteq> 7 / 10
           \<longrightarrow> fst (LLMClient_generate_response self (defaults_only said) posted sp up
                       (Some t) (Some 0) mn)
               = Inl (LLMClientError ''API error: 400'' None)))"
proof -
  have sent: "snd (LLMClient_generate_response self e posted sp up x y mn)
     = posted @ [request_payload self sp up x y mn]" for e x y
    by (simp add: LLMClient_generate_response_def Let_def)
  have p0: "request_payload self sp up (Some 0) y m = request_payload self sp up None y m" for y m
    by (simp add: request_payload_def float_or_def)
  have p1: "request_payload self sp up x (Some 0) m = request_payload self sp up x None m" for x m
    by (simp add: request_payload_def int_or_def)
  have c2: "map (\<lambda>body. map_of body ''temperature'')
        (drop (length posted)
           (snd (LLMClient_generate_response self endpoint posted sp up (Some 0) tokens mn)))
     = [Some (JFloat (Finite (default_temperature self)))]"
    unfolding sent by (simp add: request_payload_def float_or_def)
  have c3: "map (\<lambda>body. map_of body ''max_tokens'')
        (drop (length posted)
           (snd (LLMClient_generate_response self endpoint posted sp up temp (Some 0) mn)))
     = [Some (JInt (default_max_tokens self))]"
    unfolding sent by (simp add: request_payload_def int_or_def)
  have c4: "LLMClient_generate_response self endpoint posted sp up (Some 0) tokens mn
     = LLMClient_generate_response self endpoint posted sp up None tokens mn"
    by (simp add: LLMClient_generate_response_def p0)
  have c5: "LLMClient_generate_response self endpoint posted sp up temp (Some 0) mn
     = LLMClient_generate_response self endpoint posted sp up temp None mn"
    by (simp add: LLMClient_generate_response_def p1)
  have c6: "map (\<lambda>body. map_of body ''temperature'')
            (drop (length posted)
               (snd (LLMClient_generate_response self endpoint posted sp up (Some 0) tokens mn)))
            = [Some (JFloat (Finite (7 / 10)))]
        \<and> map (\<lambda>body. map_of body ''max_tokens'')
            (drop (length posted)
               (snd (LLMClient_generate_response self endpoint posted sp up temp (Some 0) mn)))
            = [Some (JInt 1000)]
        \<and> map (\<lambda>body. map_of body ''temperature'')
            (drop (length posted)
               (snd (LLMClient_generate_response self endpoint posted sp up temp tokens mn)))
            \<noteq> [Some (JFloat (Finite 0))]
        \<and> LLMClient_generate_response self (defaults_only said) posted sp up (Some 0) (Some 0) mn
            = (Inr (py_strip said), posted @ [request_payload self sp up None None mn])
        \<and> (t \<noteq> 0 \<and> t \<noteq> 7 / 10
           \<longrightarrow> fst (LLMClient_generate_response self (defaults_only said) posted sp up
                       (Some t) (Some 0) mn)
               = Inl (LLMClientError ''API error: 400'' None))"
    if made: "new_LLMClient env key url = Inr self"
  proof -
    from made have dt: "default_temperature self = 7 / 10"
      and dm: "default_max_tokens self = 1000"
      by (auto simp: new_LLMClient_def split: option.splits list.splits)
    have never: "map (\<lambda>body. map_of body ''temperature'')
            (drop (length posted)
               (snd (LLMClient_generate_response self endpoint posted sp up temp tokens mn)))
            \<noteq> [Some (JFloat (Finite 0))]"
      unfolding sent by (simp add: request_payload_def float_or_def dt split: option.splits)
    have temperature_of: "map_of (request_payload self sp up x y mn) ''temperature''
        = Some (JFloat (Finite (float_or x (7 / 10))))" for x y
      by (simp add: request_payload_def dt)
    have tokens_of: "map_of (request_payload self sp up x y mn) ''max_tokens''
        = Some (JInt (int_or y 1000))" for x y
      by (simp add: request_payload_def dm)
    have content: "response_content (completion said) = Inr (py_strip said)"
      by (simp add: response_content_def completion_def)
    have answered: "defaults_only said posted (request_payload self sp up None None mn)
        = Response 200 (Some (completion said))"
      by (simp add: defaults_only_def temperature_of tokens_of float_or_def int_or_def)
    have zeros: "LLMClient_generate_response self (defaults_only said) posted sp up
                   (Some 0) (Some 0) mn
        = (Inr (py_strip said), posted @ [request_payload self sp up None None mn])"
      by (simp add: LLMClient_generate_response_def p0 p1 answered content)
    have refused: "fst (LLMClient_generate_response self (defaults_only said) posted sp up
                       (Some t) (Some 0) mn)
               = Inl (LLMClientError ''API error: 400'' None)"
      if "t \<noteq> 0 \<and> t \<noteq> 7 / 10"
    proof -
      from that have "defaults_only said posted (request_payload self sp up (Some t) (Some 0) mn)
          = Response 400 None"
        by (simp add: defaults_only_def temperature_of float_or_def)
      moreover have "str_nat 400 = ''400''"
        by code_simp
      ultimately show ?thesis
        by (simp add: LLMClient_generate_response_def)
    qed
    from refused have refused': "t \<noteq> 0 \<and> t \<noteq> 7 / 10
           \<longrightarrow> fst (LLMClient_generate_response self (defaults_only said) posted sp up
                       (Some t) (Some 0) mn)
               = Inl (LLMClientError ''API error: 400'' None)"
      by (rule impI)
    show ?thesis
      by (intro conjI c2 [unfolded dt] c3 [unfolded dm] never zeros refused')
  qed
  from c6 have c6': "new_LLMClient env key url = Inr self
      \<longrightarrow> map (\<lambda>body. map_of body ''temperature'')
            (drop (length posted)
               (snd (LLMClient_generate_response self endpoint posted sp up (Some 0) tokens mn)))
            = [Some (JFloat (Finite (7 / 10)))]
        \<and> map (\<lambda>body. map_of body ''max_tokens'')
            (drop (length posted)
               (snd (LLMClient_generate_response self endpoint posted sp up temp (Some 0) mn)))
            = [Some (JInt 1000)]
        \<and> map (\<lambda>body. map_of body ''temperature'')
            (drop (length posted)
               (snd (LLMClient_generate_response self endpoint posted sp up temp tokens mn)))
            \<noteq> [Some (JFloat (Finite 0))]
        \<and> LLMClient_generate_response self (defaults_only said) posted sp up (Some 0) (Some 0) mn
            = (Inr (py_strip said), posted @ [request_payload self sp up None None mn])
        \<and> (t \<noteq> 0 \<and> t \<noteq> 7 / 10
           \<longrightarrow> fst (LLMClient_generate_response self (defaults_only said) posted sp up
                       (Some t) (Some 0) mn)
               = Inl (LLMClientError ''API error: 400'' None))"
    by (rule impI)
  show ?thesis
    by (intro conjI sent c2 c3 c4 c5 c6')
qed

theorem zero_sampling_parameters_fall_back_witness:
  "new_LLMClient sample_environment None None = Inr sample_client
   \<and> LLMClient_generate_response sample_client (defaults_only ''  Hello.  '') []
        ''system'' ''user'' (Some 0) (Some 0) None
       = (Inr ''Hello.'',
          [[(''model'', JStr ''llama-3.3-70b-versatile''),
            (''messages'',
               JList [JDict [(''role'', JStr ''system''), (''content'', JStr ''system'')],
                      JDict [(''role'', JStr ''user''), (''content'', JStr ''user'')]]),
            (''temperature'', JFloat (Finite (7 / 10))),
            (''max_tokens'', JInt 1000)]])
   \<and> fst (LLMClient_generate_response sample_client (defaults_only ''  Hello.  '') []
        ''system'' ''user'' (Some (1 / 2)) (Some 0) None)
       = Inl (LLMClientError ''API error: 400'' None)
   \<and> map (\<lambda>body. map_of body ''temperature'')
        (snd (LLMClient_generate_response sample_client (defaults_only ''  Hello.  '') []
                ''system'' ''user'' (Some 0) (Some 500) None))
       = [Some (JFloat (Finite (7 / 10)))]
   \<and> map (\<lambda>body. map_of body ''max_tokens'')
        (snd (LLMClient_generate_response sample_client (defaults_only ''  Hello.  '') []
                ''system'' ''user'' (Some (1 / 2)) (Some 0) None))
       = [Some (JInt 1000)]"
proof -
  have made: "new_LLMClient sample_environment None None = Inr sample_client"
    by (simp add: new_LLMClient_def sample_environment_def sample_client_def str_or_def)
  note claim = zero_sampling_parameters_fall_back
    [where self = sample_client and env = sample_environment and key = None and url = None
       and endpoint = "defaults_only ''  Hello.  ''" and posted = "[]"
       and sp = "''system''" and up = "''user''" and tokens = "Some 500" and mn = None
       and temp = "Some (1 / 2)" and said = "''  Hello.  ''" and t = "1 / 2",
     THEN conjunct2, THEN conjunct2, THEN conjunct2, THEN conjunct2, THEN conjunct2,
     THEN mp, OF made]
  have stripped: "py_strip ''  Hello.  '' = ''Hello.''"
    by code_simp
  have body: "request_payload sample_client ''system'' ''user'' None None None
      = [(''model'', JStr ''llama-3.3-70b-versatile''),
         (''messages'',
            JList [JDict [(''role'', JStr ''system''), (''content'', JStr ''system'')],
                   JDict [(''role'', JStr ''user''), (''content'', JStr ''user'')]]),
         (''temperature'', JFloat (Finite (7 / 10))),
         (''max_tokens'', JInt 1000)]"
    by (simp add: request_payload_def sample_client_def str_or_def float_or_def int_or_def)
  have zeros: "LLMClient_generate_response sample_client (defaults_only ''  Hello.  '') []
        ''system'' ''user'' (Some 0) (Some 0) None
       = (Inr ''Hello.'',
          [[(''model'', JStr ''llama-3.3-70b-versatile''),
            (''messages'',
               JList [JDict [(''role'', JStr ''system''), (''content'', JStr ''system'')],
                      JDict [(''role'', JStr ''user''), (''content'', JStr ''user'')]]),
            (''temperature'', JFloat (Finite (7 / 10))),
            (''max_tokens'', JInt 1000)]])"
    using claim [THEN conjunct2, THEN conjunct2, THEN conjunct2, THEN conjunct1]
    by (simp add: stripped body)
  have refused: "fst (LLMClient_generate_response sample_client (defaults_only ''  Hello.  '') []
        ''system'' ''user'' (Some (1 / 2)) (Some 0) None)
       = Inl (LLMClientError ''API error: 400'' None)"
    using claim [THEN conjunct2, THEN conjunct2, THEN conjunct2, THEN conjunct2]
    by simp
  have temperature_sent: "map (\<lambda>body. map_of body ''temperature'')
        (snd (LLMClient_generate_response sample_client (defaults_only ''  Hello.  '') []
                ''system'' ''user'' (Some 0) (Some 500) None))
       = [Some (JFloat (Finite (7 / 10)))]"
    using claim [THEN conjunct1] by simp
  have tokens_sent: "map (\<lambda>body. map_of body ''max_tokens'')
        (snd (LLMClient_generate_response sample_client (defaults_only ''  Hello.  '') []
                ''system'' ''user'' (Some (1 / 2)) (Some 0) None))
       = [Some (JInt 1000)]"
    using claim [THEN conjunct2, THEN conjunct1] by simp
  show ?thesis
    by (intro conjI made zeros refused temperature_sent tokens_sent)
qed

lemma generate_response_calls:
  assumes "personalities self (ResponseGenerationRequest.personality request) = Some profile"
  shows "snd (generate_response self fmt request calls)
           = calls @ [generation_call fmt request profile]"
  using assms
  by (simp add: generate_response_def Let_def split: sum.splits)

lemma transform_response_calls:
  assumes "personalities self (target_personality request) = Some profile"
  shows "take (Suc (length calls)) (snd (transform_response self fmt request calls))
           = calls @ [transformation_call fmt request profile]"
  using assms
  by (simp add: transform_response_def Let_def analyze_tone_changes_def
        generate_transformation_explanation_def split: sum.splits prod.splits)

lemma payload_temperature_nonzero:
  "t \<noteq> 0 \<Longrightarrow>
     map_of (request_payload client sp up (Some t) tokens mn) ''temperature''
       = Some (JFloat (Finite t))"
  by (simp add: request_payload_def float_or_def)

subsection \<open>The sampling temperature\<close>

text \<open>
  C5. The call that \<open>generate_response\<close> makes, and the first call that
  \<open>transform_response\<close> makes (the transformation itself), ask for the temperature 0.7
  when the personality is \<open>friend\<close> and 0.5 for each of the other types, whenever the
  table has the profile, as the engine's own table has for all seven; and the request
  body the client builds for such a call carries the same temperature.
\<close>

theorem friend_samples_warmer:
  "(personalities self (ResponseGenerationRequest.personality request) = Some profile
      \<longrightarrow> map temperature (drop (length calls) (snd (generate_response self fmt request calls)))
          = [Some (if ResponseGenerationRequest.personality request = FRIEND
                   then 7 / 10 else 1 / 2)])
   \<and> (personalities self (target_personality trequest) = Some tprofile
      \<longrightarrow> map temperature
            (drop (length calls)
               (take (Suc (length calls)) (snd (transform_response self fmt trequest calls))))
          = [Some (if target_personality trequest = FRIEND then 7 / 10 else 1 / 2)])
   \<and> map temperature
        (drop (length calls)
           (snd (generate_response (new_PersonalityEngine profile_of client) fmt request calls)))
       = [Some (if ResponseGenerationRequest.personality request = FRIEND
                then 7 / 10 else 1 / 2)]
   \<and> map temperature
        (drop (length calls)
           (take (Suc (length calls))
              (snd (transform_response (new_PersonalityEngine profile_of client) fmt
                      trequest calls))))
       = [Some (if target_personality trequest = FRIEND then 7 / 10 else 1 / 2)]
   \<and> map_of (request_payload client' sp up
                (temperature (generation_call fmt request profile)) tokens mn) ''temperature''
       = Some (JFloat (Finite (if ResponseGenerationRequest.personality request = FRIEND
                               then 7 / 10 else 1 / 2)))
   \<and> map_of (request_payload client' sp up
                (temperature (transformation_call fmt trequest tprofile)) tokens mn)
         ''temperature''
       = Some (JFloat (Finite (if target_personality trequest = FRIEND then 7 / 10 else 1 / 2)))"
proof -
  have p1: "map_of (request_payload client' sp up
                (temperature (generation_call fmt request profile)) tokens mn) ''temperature''
       = Some (JFloat (Finite (if ResponseGenerationRequest.personality request = FRIEND
                               then 7 / 10 else 1 / 2)))"
    by (simp add: generation_call_def payload_temperature_nonzero)
  have p2: "map_of (request_payload client' sp up
                (temperature (transformation_call fmt trequest tprofile)) tokens mn)
         ''temperature''
       = Some (JFloat (Finite (if target_personality trequest = FRIEND then 7 / 10 else 1 / 2)))"
    by (simp add: transformation_call_def payload_temperature_nonzero)
  have g: "map temperature (drop (length calls) (snd (generate_response s fmt request calls)))
          = [Some (if ResponseGenerationRequest.personality request = FRIEND
                   then 7 / 10 else 1 / 2)]"
    if "personalities s (ResponseGenerationRequest.personality request) = Some p" for s p
    using generate_response_calls [OF that, where fmt = fmt and calls = calls]
    by (simp add: generation_call_def)
  have t: "map temperature
            (drop (length calls)
               (take (Suc (length calls)) (snd (transform_response s fmt trequest calls))))
          = [Some (if target_personality trequest = FRIEND then 7 / 10 else 1 / 2)]"
    if "personalities s (target_personality trequest) = Some p" for s p
    unfolding transform_response_calls [OF that, where fmt = fmt and calls = calls]
    by (simp add: transformation_call_def)
  have every: "personalities (new_PersonalityEngine profile_of client) p = Some (profile_of p)"
    for p
    by (simp add: new_PersonalityEngine_def initialize_personalities_def)
  have g': "personalities self (ResponseGenerationRequest.personality request) = Some profile
      \<longrightarrow> map temperature (drop (length calls) (snd (generate_response self fmt request calls)))
          = [Some (if ResponseGenerationRequest.personality request = FRIEND
                   then 7 / 10 else 1 / 2)]"
    using g [of self profile] by (rule impI)
  have t': "personalities self (target_personality trequest) = Some tprofile
      \<longrightarrow> map temperature
            (drop (length calls)
               (take (Suc (length calls)) (snd (transform_response self fmt trequest calls))))
          = [Some (if target_personality trequest = FRIEND then 7 / 10 else 1 / 2)]"
    using t [of self tprofile] by (rule impI)
  show ?thesis
    by (intro conjI g' t' g [OF every] t [OF every] p1 p2)
qed

theorem friend_samples_warmer_witness:
  "personalities (new_PersonalityEngine sample_profile (answering ''Sure!'')) FRIEND
     = Some (sample_profile FRIEND)
   \<and> map temperature
        (snd (generate_response (new_PersonalityEngine sample_profile (answering ''Sure!''))
                sample_fmt
                \<lparr>ResponseGenerationRequest.user_message = ''I am having a bad day'',
                 ResponseGenerationRequest.personality = FRIEND,
                 ResponseGenerationRequest.user_memory = None,
                 conversation_history = None,
                 ResponseGenerationRequest.context = None\<rparr> []))
       = [Some (7 / 10)]
   \<and> map temperature
        (take 1
           (snd (transform_response (new_PersonalityEngine sample_profile (answering ''Sure!''))
                   sample_fmt
                   \<lparr>PersonalityTransformationRequest.original_response = ''hey'',
                    target_personality = MENTOR,
                    PersonalityTransformationRequest.user_memory = None,
                    conversation_context = None,
                    PersonalityTransformationRequest.user_message = Some ''need advice''\<rparr> [])))
       = [Some (1 / 2)]"
proof -
  let ?engine = "new_PersonalityEngine sample_profile (answering ''Sure!'')"
  let ?greq = "\<lparr>ResponseGenerationRequest.user_message = ''I am having a bad day'',
                 ResponseGenerationRequest.personality = FRIEND,
                 ResponseGenerationRequest.user_memory = None,
                 conversation_history = None,
                 ResponseGenerationRequest.context = None\<rparr>"
  let ?treq = "\<lparr>PersonalityTransformationRequest.original_response = ''hey'',
                    target_personality = MENTOR,
                    PersonalityTransformationRequest.user_memory = None,
                    conversation_context = None,
                    PersonalityTransformationRequest.user_message = Some ''need advice''\<rparr>"
  have friend: "personalities ?engine (ResponseGenerationRequest.personality ?greq)
                  = Some (sample_profile FRIEND)"
    and mentor: "personalities ?engine (target_personality ?treq) = Some (sample_profile MENTOR)"
    by (simp_all add: new_PersonalityEngine_def initialize_personalities_def)
  note claim = friend_samples_warmer
    [where self = ?engine and request = ?greq and trequest = ?treq and calls = "[]"
       and fmt = sample_fmt and profile = "sample_profile FRIEND"
       and tprofile = "sample_profile MENTOR"]
  from claim [THEN conjunct1, THEN mp, OF friend]
  have a: "map temperature (snd (generate_response ?engine sample_fmt ?greq [])) = [Some (7 / 10)]"
    by simp
  from claim [THEN conjunct2, THEN conjunct1, THEN mp, OF mentor]
  have b: "map temperature (take 1 (snd (transform_response ?engine sample_fmt ?treq [])))
             = [Some (1 / 2)]"
    by simp
  from friend have friend': "personalities ?engine FRIEND = Some (sample_profile FRIEND)"
    by simp
  show ?thesis
    by (intro conjI friend' a b)
qed

subsection \<open>Auxiliary calls of a transformation\<close>

text \<open>
  C8. Once the transformation call has answered, \<open>transform_response\<close> returns the
  transformed text whatever the two auxiliary calls do: the tone analysis is the reply
  of the second call or \<open>Tone analysis unavailable\<close> when it raises, the explanation is
  the reply of the third call or \<open>Transformation explanation unavailable\<close> when it
  raises.
\<close>

theorem transformation_survives_auxiliary_failures:
  assumes "personalities self (target_personality request) = Some profile"
    and "llm_client self calls (transformation_call fmt request profile) = Inr transformed"
  shows "fst (transform_response self fmt request calls)
     = Inr \<lparr>PersonalityTransformationResponse.original_response =
              PersonalityTransformationRequest.original_response request,
            transformed_response = transformed,
            personality_type = target_personality request,
            transformation_explanation =
              (case llm_client self
                      (calls @ [transformation_call fmt request profile,
                                tone_analysis_call
                                  (PersonalityTransformationRequest.original_response request)
                                  transformed profile])
                      (explanation_call
                         (PersonalityTransformationRequest.original_response request)
                         transformed profile) of
                 Inr reply \<Rightarrow> reply
               | Inl e \<Rightarrow> ''Transformation explanation unavailable''),
            tone_analysis =
              [(''analysis'',
                case llm_client self (calls @ [transformation_call fmt request profile])
                       (tone_analysis_call
                          (PersonalityTransformationRequest.original_response request)
                          transformed profile) of
                  Inr reply \<Rightarrow> reply
                | Inl e \<Rightarrow> ''Tone analysis unavailable'')],
            confidence_score = 85 / 100\<rparr>"
  using assms
  by (simp add: transform_response_def Let_def analyze_tone_changes_def
        generate_transformation_explanation_def split: sum.splits)

theorem transformation_survives_auxiliary_failures_witness:
  "fst (transform_response
          (new_PersonalityEngine sample_profile (failing_from 1 ''Let me guide you.''))
          sample_fmt
          \<lparr>PersonalityTransformationRequest.original_response = ''hey'',
           target_personality = MENTOR,
           PersonalityTransformationRequest.user_memory = None,
           conversation_context = None,
           PersonalityTransformationRequest.user_message = Some ''need advice''\<rparr> [])
     = Inr \<lparr>PersonalityTransformationResponse.original_response = ''hey'',
            transformed_response = ''Let me guide you.'',
            personality_type = MENTOR,
            transformation_explanation = ''Transformation explanation unavailable'',
            tone_analysis = [(''analysis'', ''Tone analysis unavailable'')],
            confidence_score = 85 / 100\<rparr>"
proof -
  let ?engine = "new_PersonalityEngine sample_profile (failing_from 1 ''Let me guide you.'')"
  let ?req = "\<lparr>PersonalityTransformationRequest.original_response = ''hey'',
           target_personality = MENTOR,
           PersonalityTransformationRequest.user_memory = None,
           conversation_context = None,
           PersonalityTransformationRequest.user_message = Some ''need advice''\<rparr>"
  have profile: "personalities ?engine (target_personality ?req) = Some (sample_profile MENTOR)"
    by (simp add: new_PersonalityEngine_def initialize_personalities_def)
  have main: "llm_client ?engine [] (transformation_call sample_fmt ?req (sample_profile MENTOR))
                = Inr ''Let me guide you.''"
    by (simp add: new_PersonalityEngine_def failing_from_def)
  show ?thesis
    using transformation_survives_auxiliary_failures [OF profile main]
    by (simp add: new_PersonalityEngine_def failing_from_def)
qed

lemma fact_values_Cons:
  "fact_values (item # items)
     = (case item of
          JDict kw \<Rightarrow> (case map_of kw ''value'' of Some (JStr v) \<Rightarrow> [v] | _ \<Rightarrow> [])
        | _ \<Rightarrow> []) @ fact_values items"
  by (simp add: fact_values_def)

lemma references_loop_text_valued:
  assumes "text_valued items"
  shows "references_loop reply items acc
     = Inr (acc @ map (\<lambda>v. ''Referenced fact: '' @ v)
                    (filter (\<lambda>v. py_in (py_lower v) (py_lower reply)) (fact_values items)))"
  using assms
proof (induction items arbitrary: acc)
  case Nil
  then show ?case by (simp add: fact_values_def)
next
  case (Cons item items)
  from Cons.prems have rest: "text_valued items"
    by (simp add: text_valued_def)
  show ?case
  proof (cases item)
    case (JDict kw)
    show ?thesis
    proof (cases "map_of kw ''value''")
      case None
      with JDict show ?thesis by (simp add: fact_values_Cons Cons.IH [OF rest])
    next
      case (Some v)
      with Cons.prems JDict obtain s where "v = JStr s"
        by (cases v) (simp_all add: text_valued_def)
      with JDict Some show ?thesis by (simp add: fact_values_Cons Cons.IH [OF rest])
    qed
  qed (simp_all add: fact_values_Cons Cons.IH [OF rest])
qed

lemma extract_memory_references_facts:
  assumes "um \<noteq> []" and "map_of um ''facts'' = Some fs" and "py_iter fs = Inr items"
  shows "extract_memory_references reply (Some um) = references_loop reply items []"
proof -
  from assms(1) obtain kv kvs where "um = kv # kvs" by (cases um) auto
  with assms(2,3) show ?thesis
    by (simp add: extract_memory_references_def)
qed

lemma references_loop_keys:
  "references_loop reply (map (\<lambda>(k, v). JStr k) d) acc = Inr acc"
  by (induction d arbitrary: acc) (simp_all add: case_prod_beta)

lemma generate_response_answered:
  assumes "personalities self (ResponseGenerationRequest.personality request) = Some profile"
    and "llm_client self calls (generation_call fmt request profile) = Inr reply"
    and "extract_personalization_elements reply
           (ResponseGenerationRequest.user_memory request) = Inr elements"
    and "extract_memory_references reply
           (ResponseGenerationRequest.user_memory request) = Inr refs"
  shows "fst (generate_response self fmt request calls)
     = Inr \<lparr>response = reply,
            ResponseGenerationResponse.personality =
              ResponseGenerationRequest.personality request,
            personalization_elements = elements,
            tone_metrics = analyze_response_tone reply profile,
            memory_references = refs,
            generation_confidence = 88 / 100\<rparr>"
  using assms by (simp add: generate_response_def Let_def)

subsection \<open>Memory references\<close>

text \<open>
  C6. \<open>_extract_memory_references\<close> visits \<open>user_memory['facts']\<close> and reports the \<open>value\<close>
  of each visited item that is a dictionary. Visiting a mapping gives its keys, which are
  text. So for a memory whose facts are a mapping from names to values, as the memory of
  the engine's own test is, a generation that the client answers returns with no memory
  reference, whatever its response says: the fact values are never looked at. For facts
  that are a list of objects with a text \<open>value\<close>, the generation returns with one entry
  \<open>Referenced fact: v\<close> for each value \<open>v\<close> whose lower-case form occurs in the lower-case
  response, in the order of the facts, and nothing else.
\<close>

theorem mapping_shaped_facts_are_never_referenced:
  assumes "personalities self (ResponseGenerationRequest.personality request) = Some profile"
    and "llm_client self calls (generation_call fmt request profile) = Inr reply"
    and "ResponseGenerationRequest.user_memory request = Some um"
    and "extract_personalization_elements reply (Some um) = Inr elements"
  shows "(map_of um ''facts'' = Some (JDict d)
      \<longrightarrow> extract_memory_references reply (Some um) = Inr []
        \<and> fst (generate_response self fmt request calls)
            = Inr \<lparr>response = reply,
                   ResponseGenerationResponse.personality =
                     ResponseGenerationRequest.personality request,
                   personalization_elements = elements,
                   tone_metrics = analyze_response_tone reply profile,
                   memory_references = [],
                   generation_confidence = 88 / 100\<rparr>)
   \<and> (map_of um ''facts'' = Some (JList items) \<and> text_valued items
      \<longrightarrow> fst (generate_response self fmt request calls)
            = Inr \<lparr>response = reply,
                   ResponseGenerationResponse.personality =
                     ResponseGenerationRequest.personality request,
                   personalization_elements = elements,
                   tone_metrics = analyze_response_tone reply profile,
                   memory_references =
                     map (\<lambda>v. ''Referenced fact: '' @ v)
                       (filter (\<lambda>v. py_in (py_lower v) (py_lower reply)) (fact_values items)),
                   generation_confidence = 88 / 100\<rparr>)"
proof (intro conjI impI)
  assume facts: "map_of um ''facts'' = Some (JDict d)"
  then have "um \<noteq> []"
    by auto
  from this facts have "extract_memory_references reply (Some um)
      = references_loop reply (map (\<lambda>(k, v). JStr k) d) []"
    by (rule extract_memory_references_facts) simp
  then show none: "extract_memory_references reply (Some um) = Inr []"
    by (simp add: references_loop_keys)
  from assms(1,2) assms(4) [folded assms(3)] none [folded assms(3)]
  show "fst (generate_response self fmt request calls)
            = Inr \<lparr>response = reply,
                   ResponseGenerationResponse.personality =
                     ResponseGenerationRequest.personality request,
                   personalization_elements = elements,
                   tone_metrics = analyze_response_tone reply profile,
                   memory_references = [],
                   generation_confidence = 88 / 100\<rparr>"
    by (rule generate_response_answered)
next
  assume "map_of um ''facts'' = Some (JList items) \<and> text_valued items"
  then have facts: "map_of um ''facts'' = Some (JList items)" and shaped: "text_valued items"
    by simp_all
  from facts have "um \<noteq> []"
    by auto
  from this facts have "extract_memory_references reply (Some um)
      = references_loop reply items []"
    by (rule extract_memory_references_facts) simp
  also have "\<dots> = Inr ([] @ map (\<lambda>v. ''Referenced fact: '' @ v)
                   (filter (\<lambda>v. py_in (py_lower v) (py_lower reply)) (fact_values items)))"
    using shaped by (rule references_loop_text_valued)
  finally have refs: "extract_memory_references reply (Some um)
      = Inr (map (\<lambda>v. ''Referenced fact: '' @ v)
               (filter (\<lambda>v. py_in (py_lower v) (py_lower reply)) (fact_values items)))"
    by simp
  from assms(1,2) assms(4) [folded assms(3)] refs [folded assms(3)]
  show "fst (generate_response self fmt request calls)
            = Inr \<lparr>response = reply,
                   ResponseGenerationResponse.personality =
                     ResponseGenerationRequest.personality request,
                   personalization_elements = elements,
                   tone_metrics = analyze_response_tone reply profile,
                   memory_references =
                     map (\<lambda>v. ''Referenced fact: '' @ v)
                       (filter (\<lambda>v. py_in (py_lower v) (py_lower reply)) (fact_values items)),
                   generation_confidence = 88 / 100\<rparr>"
    by (rule generate_response_answered)
qed

theorem mapping_shaped_facts_are_never_referenced_witness:
  "map_of sample_user_memory ''facts''
     = Some (JDict [(''profession'', JStr ''software engineer''),
                    (''location'', JStr ''New York'')])
   \<and> py_in (py_lower ''software engineer'') (py_lower engineer_reply)
   \<and> extract_memory_references engineer_reply (Some sample_user_memory) = Inr []
   \<and> fst (generate_response (new_PersonalityEngine sample_profile (answering engineer_reply))
             sample_fmt (memory_request sample_user_memory) [])
       = Inr \<lparr>response = engineer_reply,
              ResponseGenerationResponse.personality = PROFESSIONAL,
              personalization_elements = [],
              tone_metrics = analyze_response_tone engineer_reply (sample_profile PROFESSIONAL),
              memory_references = [],
              generation_confidence = 88 / 100\<rparr>
   \<and> fst (generate_response (new_PersonalityEngine sample_profile (answering engineer_reply))
             sample_fmt (memory_request engineer_memory) [])
       = Inr \<lparr>response = engineer_reply,
              ResponseGenerationResponse.personality = PROFESSIONAL,
              personalization_elements = [],
              tone_metrics = analyze_response_tone engineer_reply (sample_profile PROFESSIONAL),
              memory_references = [''Referenced fact: software engineer''],
              generation_confidence = 88 / 100\<rparr>"
proof -
  let ?engine = "new_PersonalityEngine sample_profile (answering engineer_reply)"
  let ?d = "[(''profession'', JStr ''software engineer''), (''location'', JStr ''New York'')]"
  let ?items = "[JDict [(''value'', JStr ''software engineer''),
                        (''confidence'', JFloat (Finite (9 / 10)))]]"
  have profile: "personalities ?engine
      (ResponseGenerationRequest.personality (memory_request um))
        = Some (sample_profile PROFESSIONAL)" for um
    by (simp add: new_PersonalityEngine_def initialize_personalities_def memory_request_def)
  have answered: "llm_client ?engine []
      (generation_call sample_fmt (memory_request um) (sample_profile PROFESSIONAL))
        = Inr engineer_reply" for um
    by (simp add: new_PersonalityEngine_def answering_def)
  have memory: "ResponseGenerationRequest.user_memory (memory_request um) = Some um" for um
    by (simp add: memory_request_def)
  have asked: "ResponseGenerationRequest.personality (memory_request um) = PROFESSIONAL" for um
    by (simp add: memory_request_def)
  have mapping: "map_of sample_user_memory ''facts'' = Some (JDict ?d)"
    by (simp add: sample_user_memory_def)
  have listed: "map_of engineer_memory ''facts'' = Some (JList ?items) \<and> text_valued ?items"
    by (simp add: engineer_memory_def text_valued_def)
  have occurs: "py_in (py_lower ''software engineer'') (py_lower engineer_reply)"
    by code_simp
  have elements1: "extract_personalization_elements engineer_reply (Some sample_user_memory)
      = Inr []"
    by code_simp
  have elements2: "extract_personalization_elements engineer_reply (Some engineer_memory)
      = Inr []"
    by code_simp
  have matched: "map (\<lambda>v. ''Referenced fact: '' @ v)
      (filter (\<lambda>v. py_in (py_lower v) (py_lower engineer_reply)) (fact_values ?items))
        = [''Referenced fact: software engineer'']"
    by code_simp
  note fixture = mapping_shaped_facts_are_never_referenced
    [OF profile answered memory elements1, where d = ?d, THEN conjunct1, THEN mp, OF mapping]
  note listing = mapping_shaped_facts_are_never_referenced
    [OF profile answered memory elements2, where items = ?items, THEN conjunct2, THEN mp,
     OF listed]
  show ?thesis
    by (intro conjI mapping occurs fixture [THEN conjunct1]
          fixture [THEN conjunct2, unfolded asked] listing [unfolded asked matched])
qed

lemma generate_response_plain:
  "generate_response self fmt (comparison_request message p) calls
     = (case personalities self p of
          None \<Rightarrow> (Inl (PersonalityEngineError ''Failed to generate response'' KeyError), calls)
        | Some profile \<Rightarrow>
            (case llm_client self calls
                    (generation_call fmt (comparison_request message p) profile) of
               Inl e \<Rightarrow>
                 (Inl (PersonalityEngineError ''Failed to generate response'' e),
                  calls @ [generation_call fmt (comparison_request message p) profile])
             | Inr reply \<Rightarrow>
                 (Inr \<lparr>response = reply,
                       ResponseGenerationResponse.personality = p,
                       personalization_elements = [],
                       tone_metrics = analyze_response_tone reply profile,
                       memory_references = [],
                       generation_confidence = 88 / 100\<rparr>,
                  calls @ [generation_call fmt (comparison_request message p) profile])))"
  by (simp add: generate_response_def Let_def comparison_request_def
        extract_personalization_elements_def extract_memory_references_def
        split: option.splits sum.splits)

lemma keys_dict_set: "set (map fst (dict_set d k v)) = insert k (set (map fst d))"
proof (induction d)
  case Nil
  show ?case by simp
next
  case (Cons kv d)
  obtain k' v' where kv: "kv = (k', v')" by (cases kv)
  show ?case
  proof (cases "k' = k")
    case True
    then show ?thesis by (simp add: kv)
  next
    case False
    then show ?thesis using Cons.IH by (simp add: kv insert_commute)
  qed
qed

lemma compare_loop_sound:
  assumes "compare_loop self fmt message ps responses calls = (res, calls')"
  shows "\<exists>new. calls' = calls @ new
           \<and> (\<forall>e. res = Inl e \<longrightarrow> generation_failed e)
           \<and> (\<forall>rs. res = Inr rs \<longrightarrow>
                 length new = length ps
                 \<and> set (map fst rs) = set (map fst responses) \<union> set ps
                 \<and> (\<forall>k < length new.
                       \<not> isl (llm_client self (calls @ take k new) (new ! k))))"
  using assms
proof (induction ps arbitrary: responses calls)
  case Nil
  then show ?case by auto
next
  case (Cons p rest)
  show ?case
  proof (cases "personalities self p")
    case None
    with Cons.prems have "res = Inl (PersonalityEngineError ''Failed to generate response'' KeyError)"
      and "calls' = calls"
      by (simp_all add: generate_response_plain)
    then show ?thesis by (simp add: generation_failed_def)
  next
    case (Some profile)
    let ?call = "generation_call fmt (comparison_request message p) profile"
    show ?thesis
    proof (cases "llm_client self calls ?call")
      case (Inl e)
      with Some Cons.prems
      have "res = Inl (PersonalityEngineError ''Failed to generate response'' e)"
        and "calls' = calls @ [?call]"
        by (simp_all add: generate_response_plain)
      then show ?thesis by (simp add: generation_failed_def)
    next
      case (Inr reply)
      with Some Cons.prems
      have "compare_loop self fmt message rest (dict_set responses p reply) (calls @ [?call])
              = (res, calls')"
        by (simp add: generate_response_plain)
      from Cons.IH [OF this] obtain new where new: "calls' = (calls @ [?call]) @ new"
        and failed: "\<forall>e. res = Inl e \<longrightarrow> generation_failed e"
        and fin: "\<forall>rs. res = Inr rs \<longrightarrow>
                 length new = length rest
                 \<and> set (map fst rs) = set (map fst (dict_set responses p reply)) \<union> set rest
                 \<and> (\<forall>k < length new.
                       \<not> isl (llm_client self ((calls @ [?call]) @ take k new) (new ! k)))"
        by blast
      have ok: "\<forall>k < length (?call # new).
              \<not> isl (llm_client self (calls @ take k (?call # new)) ((?call # new) ! k))"
        if "res = Inr rs" for rs
      proof (intro allI impI)
        fix k assume k: "k < length (?call # new)"
        show "\<not> isl (llm_client self (calls @ take k (?call # new)) ((?call # new) ! k))"
        proof (cases k)
          case 0
          with Inr show ?thesis by simp
        next
          case (Suc j)
          with k have "j < length new" by simp
          with fin that
          have "\<not> isl (llm_client self ((calls @ [?call]) @ take j new) (new ! j))"
            by blast
          with Suc show ?thesis by simp
        qed
      qed
      have A: "calls' = calls @ (?call # new)"
        using new by simp
      have C: "\<forall>rs. res = Inr rs \<longrightarrow>
                 length (?call # new) = length (p # rest)
                 \<and> set (map fst rs) = set (map fst responses) \<union> set (p # rest)
                 \<and> (\<forall>k < length (?call # new).
                       \<not> isl (llm_client self (calls @ take k (?call # new))
                               ((?call # new) ! k)))"
      proof (intro allI impI)
        fix rs assume rs: "res = Inr rs"
        from fin rs have l: "length new = length rest"
          and s: "set (map fst rs) = set (map fst (dict_set responses p reply)) \<union> set rest"
          by blast+
        have c1: "length (?call # new) = length (p # rest)"
          using l by simp
        have c2: "set (map fst rs) = set (map fst responses) \<union> set (p # rest)"
          unfolding s keys_dict_set by auto
        have c3: "\<forall>k < length (?call # new).
                \<not> isl (llm_client self (calls @ take k (?call # new)) ((?call # new) ! k))"
          using rs by (rule ok)
        show "length (?call # new) = length (p # rest)
                 \<and> set (map fst rs) = set (map fst responses) \<union> set (p # rest)
                 \<and> (\<forall>k < length (?call # new).
                       \<not> isl (llm_client self (calls @ take k (?call # new))
                               ((?call # new) ! k)))"
          using c1 c2 c3 by (intro conjI)
      qed
      show ?thesis
        by (intro exI [of _ "?call # new"] conjI A failed C)
    qed
  qed
qed


subsection \<open>Comparison\<close>

text \<open>
  C7. \<open>compare_personalities\<close> appends its calls to the calls made before. If any of
  them raised, the comparison fails; every failure is a
  \<open>PersonalityEngineError\<close> (\<open>Failed to compare personalities\<close>) around the failed
  generation's error; and a comparison that is returned has made one call for each chosen
  personality and holds a response for each of them.
\<close>

theorem comparison_aborts_on_any_failure:
  assumes "compare_personalities self fmt message base chosen calls = (result, calls')"
  shows "\<exists>new. calls' = calls @ new
     \<and> ((\<exists>k < length new. isl (llm_client self (calls @ take k new) (new ! k)))
          \<longrightarrow> isl result)
     \<and> (\<forall>e. result = Inl e \<longrightarrow>
           (\<exists>cause. e = PersonalityEngineError ''Failed to compare personalities''
                          (PersonalityEngineError ''Failed to generate response'' cause)))
     \<and> (\<forall>comparison. result = Inr comparison \<longrightarrow>
           length new = length (case chosen of None \<Rightarrow> all_personality_types | Some ps \<Rightarrow> ps)
           \<and> set (map fst (personality_responses comparison))
               = set (case chosen of None \<Rightarrow> all_personality_types | Some ps \<Rightarrow> ps))"
proof -
  let ?ps = "case chosen of None \<Rightarrow> all_personality_types | Some ps \<Rightarrow> ps"
  obtain res where loop: "compare_loop self fmt message ?ps [] calls = (res, calls')"
    and result: "result = (case res of
                    Inl e \<Rightarrow> Inl (PersonalityEngineError ''Failed to compare personalities'' e)
                  | Inr responses \<Rightarrow>
                      Inr \<lparr>PersonalityComparison.user_message = message,
                            base_response = base,
                            personality_responses = responses,
                            comparison_analysis = analyze_response_differences base responses,
                            recommendations =
                              generate_usage_recommendations message responses\<rparr>)"
    using assms
    by (cases "compare_loop self fmt message ?ps [] calls")
       (auto simp: compare_personalities_def split: sum.splits)
  from compare_loop_sound [OF loop] obtain new where new: "calls' = calls @ new"
    and failed: "\<forall>e. res = Inl e \<longrightarrow> generation_failed e"
    and fin: "\<forall>rs. res = Inr rs \<longrightarrow>
                 length new = length ?ps
                 \<and> set (map fst rs) = set (map fst ([] :: (PersonalityType \<times> string) list)) \<union> set ?ps
                 \<and> (\<forall>k < length new.
                       \<not> isl (llm_client self (calls @ take k new) (new ! k)))"
    by blast
  have a: "(\<exists>k < length new. isl (llm_client self (calls @ take k new) (new ! k)))
          \<longrightarrow> isl result"
  proof
    assume bad: "\<exists>k < length new. isl (llm_client self (calls @ take k new) (new ! k))"
    have "isl res"
    proof (cases res)
      case (Inr rs)
      with fin bad show ?thesis by blast
    qed simp
    then show "isl result"
      unfolding result by (cases res) simp_all
  qed
  have b: "\<forall>e. result = Inl e \<longrightarrow>
           (\<exists>cause. e = PersonalityEngineError ''Failed to compare personalities''
                          (PersonalityEngineError ''Failed to generate response'' cause))"
  proof (intro allI impI)
    fix e assume e: "result = Inl e"
    then obtain e' where res: "res = Inl e'"
      and e': "e = PersonalityEngineError ''Failed to compare personalities'' e'"
      unfolding result by (cases res) simp_all
    from failed res have "generation_failed e'" by blast
    then obtain cause where "e' = PersonalityEngineError ''Failed to generate response'' cause"
      by (cases e') (simp_all add: generation_failed_def)
    with e' show "\<exists>cause. e = PersonalityEngineError ''Failed to compare personalities''
                          (PersonalityEngineError ''Failed to generate response'' cause)"
      by blast
  qed
  have c: "\<forall>comparison. result = Inr comparison \<longrightarrow>
           length new = length ?ps
           \<and> set (map fst (personality_responses comparison)) = set ?ps"
  proof (intro allI impI)
    fix comparison assume "result = Inr comparison"
    then obtain rs where res: "res = Inr rs"
      and "personality_responses comparison = rs"
      unfolding result by (cases res) auto
    with fin show "length new = length ?ps
           \<and> set (map fst (personality_responses comparison)) = set ?ps"
      by simp
  qed
  show ?thesis
    by (intro exI [of _ new] conjI new a b c)
qed

theorem comparison_aborts_on_any_failure_witness:
  "fst (compare_personalities (new_PersonalityEngine sample_profile (failing_at 1 ''Sure!''))
          sample_fmt ''I need help with a project'' ''I will help you with your project.''
          (Some [MENTOR, FRIEND]) [])
     = Inl (PersonalityEngineError ''Failed to compare personalities''
             (PersonalityEngineError ''Failed to generate response''
               (Exception ''LLM API error'')))
   \<and> map temperature
        (snd (compare_personalities
                (new_PersonalityEngine sample_profile (failing_at 1 ''Sure!''))
                sample_fmt ''I need help with a project'' ''I will help you with your project.''
                (Some [MENTOR, FRIEND]) []))
       = [Some (1 / 2), Some (7 / 10)]
   \<and> isl (fst (compare_personalities
                  (new_PersonalityEngine sample_profile (failing_at 1 ''Sure!''))
                  sample_fmt ''I need help with a project''
                  ''I will help you with your project.'' (Some [MENTOR, FRIEND]) []))"
proof -
  let ?engine = "new_PersonalityEngine sample_profile (failing_at 1 ''Sure!'')"
  let ?run = "compare_personalities ?engine sample_fmt ''I need help with a project''
                ''I will help you with your project.'' (Some [MENTOR, FRIEND]) []"
  have outcome: "fst ?run = Inl (PersonalityEngineError ''Failed to compare personalities''
             (PersonalityEngineError ''Failed to generate response''
               (Exception ''LLM API error'')))"
    by code_simp
  have temps: "map temperature (snd ?run) = [Some (1 / 2), Some (7 / 10)]"
    by code_simp
  have run: "?run = (fst ?run, snd ?run)"
    by simp
  from comparison_aborts_on_any_failure [OF run]
  obtain new where new: "snd ?run = [] @ new"
    and abort: "(\<exists>k < length new. isl (llm_client ?engine ([] @ take k new) (new ! k)))
                 \<longrightarrow> isl (fst ?run)"
    by blast
  from temps new have len: "length new = 2"
    by (metis append_Nil length_map length_Cons list.size(3) numeral_2_eq_2)
  have "isl (llm_client ?engine ([] @ take 1 new) (new ! 1))"
    using len by (simp add: new_PersonalityEngine_def failing_at_def)
  with len abort have "isl (fst ?run)"
    by (metis one_less_numeral_iff semiring_norm(76))
  with outcome temps show ?thesis
    by (intro conjI)
qed


end
